theory Spec2Isabelle
  imports Main
begin

section \<open>JavaScript values\<close>

text \<open>
  The values the adapter handles are JSON values (what \<^verbatim>\<open>JSON.parse\<close> yields for a
  response body, or the raw body text when parsing fails) together with \<^verbatim>\<open>undefined\<close>, which
  stands for a missing property or a missing argument.

  Scope of the embedding: a string is a list of characters, one \<open>char\<close> per UTF-16 code
  unit, so data strings range over code units below 256; string literals of the source
  outside ASCII are written as their UTF-8 bytes (they are only ever concatenated).
  Numbers are the integers, printed in decimal (as the language prints them below
  \<open>10\<^sup>2\<^sup>1\<close>); non-integral numbers are outside the embedding.  The property list of an
  object is in the object's own enumeration order.
\<close>

datatype jsval =
    JUndefined
  | JNull
  | JBool bool
  | JNum int
  | JStr string
  | JArr "jsval list"
  | JObj "(string \<times> jsval) list"

text \<open>
  Exceptions.  \<open>Error m\<close> is \<^verbatim>\<open>new Error(m)\<close>, thrown by the source itself or by the
  transport.  \<open>ZodError\<close> is the validator's error with its issues.  \<open>TypeError\<close> is raised by
  the language runtime (a property read on \<^verbatim>\<open>null\<close>, a call of something that is not a
  function, an object that does not convert to a primitive).  \<open>Unmodelled\<close> marks the one kind
  of input on which the source's result depends on the conversion of a string to a
  floating-point number, which the embedding does not follow.
\<close>

datatype path_elem = Key string | Index nat

datatype zod_issue =
    Invalid_type "path_elem list"
  | Invalid_enum_value "path_elem list"

datatype error =
    Error string
  | ZodError "zod_issue list"
  | TypeError
  | Unmodelled

fun bind_err :: "error + 'a \<Rightarrow> ('a \<Rightarrow> error + 'b) \<Rightarrow> error + 'b" where
  "bind_err (Inl e) k = Inl e"
| "bind_err (Inr x) k = k x"

fun those_err :: "(error + 'a) list \<Rightarrow> error + 'a list" where
  "those_err [] = Inr []"
| "those_err (r # rs) = bind_err r (\<lambda>x. bind_err (those_err rs) (\<lambda>xs. Inr (x # xs)))"

text \<open>Truthiness (\<^verbatim>\<open>if (v)\<close>, \<^verbatim>\<open>v ? a : b\<close>, \<^verbatim>\<open>v || w\<close>, \<^verbatim>\<open>v && w\<close>).\<close>

fun truthy :: "jsval \<Rightarrow> bool" where
  "truthy JUndefined = False"
| "truthy JNull = False"
| "truthy (JBool b) = b"
| "truthy (JNum n) = (n \<noteq> 0)"
| "truthy (JStr s) = (s \<noteq> [])"
| "truthy (JArr xs) = True"
| "truthy (JObj kvs) = True"

definition js_or :: "jsval \<Rightarrow> jsval \<Rightarrow> jsval" where
  "js_or a b = (if truthy a then a else b)"

fun nullish :: "jsval \<Rightarrow> bool" where
  "nullish JUndefined = True"
| "nullish JNull = True"
| "nullish v = False"

fun isArray :: "jsval \<Rightarrow> bool" where
  "isArray (JArr xs) = True"
| "isArray v = False"

fun own :: "(string \<times> jsval) list \<Rightarrow> string \<Rightarrow> jsval" where
  "own kvs k = (case map_of kvs k of None \<Rightarrow> JUndefined | Some v \<Rightarrow> v)"

text \<open>
  \<open>get v k\<close> is the property read \<^verbatim>\<open>v.k\<close> on a value that is neither \<^verbatim>\<open>null\<close> nor
  \<^verbatim>\<open>undefined\<close>, for the property names the source reads (\<^verbatim>\<open>data\<close>, \<^verbatim>\<open>error\<close>,
  \<^verbatim>\<open>message\<close>, \<^verbatim>\<open>results\<close>, \<^verbatim>\<open>title\<close>, \<^verbatim>\<open>key\<close>, \<^verbatim>\<open>content\<close>, \<^verbatim>\<open>id\<close>, \<^verbatim>\<open>tags\<close>,
  \<^verbatim>\<open>status\<close>, \<^verbatim>\<open>description\<close>, \<^verbatim>\<open>decided_at\<close>, \<^verbatim>\<open>decision_note\<close>, \<^verbatim>\<open>priority\<close>,
  \<^verbatim>\<open>length\<close>, and the argument names): none of them is inherited from a prototype
  except \<^verbatim>\<open>length\<close> of arrays and strings.
\<close>

fun get :: "jsval \<Rightarrow> string \<Rightarrow> jsval" where
  "get (JObj kvs) k = own kvs k"
| "get (JArr xs) k = (if k = ''length'' then JNum (int (length xs)) else JUndefined)"
| "get (JStr s) k = (if k = ''length'' then JNum (int (length s)) else JUndefined)"
| "get v k = JUndefined"

text \<open>\<^verbatim>\<open>v?.k\<close>\<close>

definition opt_get :: "jsval \<Rightarrow> string \<Rightarrow> jsval" where
  "opt_get v k = (if nullish v then JUndefined else get v k)"

subsection \<open>Conversion to string\<close>

definition digit_char :: "nat \<Rightarrow> char" where
  "digit_char d = char_of (48 + d)"

fun show_nat :: "nat \<Rightarrow> string" where
  "show_nat n = (if n < 10 then [digit_char n] else show_nat (n div 10) @ [digit_char (n mod 10)])"

declare show_nat.simps [simp del]

definition show_int :: "int \<Rightarrow> string" where
  "show_int i = (if i < 0 then CHR ''-'' # show_nat (nat (- i)) else show_nat (nat i))"

fun join :: "string \<Rightarrow> string list \<Rightarrow> string" where
  "join sep [] = []"
| "join sep [x] = x"
| "join sep (x # y # ys) = x @ sep @ join sep (y # ys)"

text \<open>
  \<^verbatim>\<open>String(v)\<close>, as a template literal and \<^verbatim>\<open>+\<close> with a string apply it.  An array is
  joined with commas, \<^verbatim>\<open>null\<close> and \<^verbatim>\<open>undefined\<close> elements giving the empty string.  A
  plain object gives \<^verbatim>\<open>[object Object]\<close> through the inherited \<^verbatim>\<open>toString\<close>; when it has
  an own property \<^verbatim>\<open>toString\<close> (data, so not callable) the conversion raises a TypeError.
\<close>

fun to_string :: "jsval \<Rightarrow> error + string" where
  "to_string JUndefined = Inr ''undefined''"
| "to_string JNull = Inr ''null''"
| "to_string (JBool b) = Inr (if b then ''true'' else ''false'')"
| "to_string (JNum n) = Inr (show_int n)"
| "to_string (JStr s) = Inr s"
| "to_string (JArr xs) =
     bind_err (those_err (map (\<lambda>x. if nullish x then Inr [] else to_string x) xs))
       (\<lambda>ss. Inr (join '','' ss))"
| "to_string (JObj kvs) =
     (if ''toString'' \<in> set (map fst kvs) then Inl TypeError else Inr ''[object Object]'')"

subsection \<open>\<^verbatim>\<open>JSON.stringify\<close>\<close>

definition dq :: string where
  "dq = [CHR 0x22]"

definition nl :: string where
  "nl = [CHR 0x0A]"

definition hex_char :: "nat \<Rightarrow> char" where
  "hex_char d = (if d < 10 then char_of (48 + d) else char_of (87 + d))"

definition quote_char :: "char \<Rightarrow> string" where
  "quote_char c =
     (if c = CHR 0x22 then [CHR 0x5C, CHR 0x22]
      else if c = CHR 0x5C then [CHR 0x5C, CHR 0x5C]
      else if c = CHR 0x08 then [CHR 0x5C, CHR ''b'']
      else if c = CHR 0x0C then [CHR 0x5C, CHR ''f'']
      else if c = CHR 0x0A then [CHR 0x5C, CHR ''n'']
      else if c = CHR 0x0D then [CHR 0x5C, CHR ''r'']
      else if c = CHR 0x09 then [CHR 0x5C, CHR ''t'']
      else if of_char c < (32 :: nat) then
        [CHR 0x5C, CHR ''u'', CHR ''0'', CHR ''0'',
         hex_char (of_char c div 16), hex_char (of_char c mod 16)]
      else [c])"

definition json_quote :: "string \<Rightarrow> string" where
  "json_quote s = dq @ concat (map quote_char s) @ dq"

text \<open>
  \<^verbatim>\<open>JSON.stringify(v)\<close> without indentation; \<open>None\<close> is the result \<^verbatim>\<open>undefined\<close>.  An
  \<^verbatim>\<open>undefined\<close> array element prints as \<^verbatim>\<open>null\<close>, an \<^verbatim>\<open>undefined\<close> property is left out.
\<close>

fun json_stringify :: "jsval \<Rightarrow> string option" where
  "json_stringify JUndefined = None"
| "json_stringify JNull = Some ''null''"
| "json_stringify (JBool b) = Some (if b then ''true'' else ''false'')"
| "json_stringify (JNum n) = Some (show_int n)"
| "json_stringify (JStr s) = Some (json_quote s)"
| "json_stringify (JArr xs) =
     Some (''['' @ join '',''
       (map (\<lambda>x. case json_stringify x of None \<Rightarrow> ''null'' | Some s \<Rightarrow> s) xs) @ '']'')"
| "json_stringify (JObj kvs) =
     Some (''{'' @ join '',''
       (concat (map (\<lambda>kv. case json_stringify (snd kv) of None \<Rightarrow> []
                              | Some s \<Rightarrow> [json_quote (fst kv) @ '':'' @ s]) kvs)) @ ''}'')"

section \<open>The HTTP client (api.js)\<close>

text \<open>
  The result of one HTTP request: the status code, the parsed body (the raw text when it
  is not JSON) and the raw text.
\<close>

record transport_result =
  res_status :: int
  res_data :: jsval
  res_raw :: string

text \<open>\<^verbatim>\<open>isOk(res)\<close>\<close>

definition isOk :: "transport_result \<Rightarrow> bool" where
  "isOk res = (res_status res \<ge> 200 \<and> res_status res < 300)"

text \<open>\<^verbatim>\<open>getData(res)\<close>\<close>

definition getData :: "transport_result \<Rightarrow> jsval" where
  "getData res =
     (if opt_get (res_data res) ''data'' \<noteq> JUndefined then get (res_data res) ''data''
      else res_data res)"

text \<open>\<^verbatim>\<open>getError(res)\<close>\<close>

definition getError :: "transport_result \<Rightarrow> jsval" where
  "getError res =
     (if truthy (opt_get (opt_get (res_data res) ''error'') ''message'')
        then get (get (res_data res) ''error'') ''message''
      else if truthy (opt_get (res_data res) ''error'')
        then (case get (res_data res) ''error'' of
                JStr s \<Rightarrow> JStr s
              | e \<Rightarrow> (case json_stringify e of None \<Rightarrow> JUndefined | Some s \<Rightarrow> JStr s))
      else (case res_data res of
              JStr s \<Rightarrow> JStr s
            | b \<Rightarrow> JStr (''HTTP '' @ show_int (res_status res))))"

text \<open>
  One call of the transport.  The HTTP exchange itself (\<^verbatim>\<open>request\<close>: configuration, URL,
  headers, the network) is the environment of the adapter: \<open>tr\<close> gives, for the call made,
  either the rejection of the promise (missing API key, network error, timeout) or the
  result.  Every function that can reach the transport returns, next to its result, the
  list of calls it made, so that not reaching the transport is an empty list.
\<close>

record http_call =
  call_method :: string
  call_path :: string
  call_body :: jsval
  call_query :: jsval

type_synonym transport = "http_call \<Rightarrow> error + transport_result"

type_synonym 'a outcome = "(error + 'a) \<times> http_call list"

text \<open>\<^verbatim>\<open>request(method, path, body = null, query = null)\<close>\<close>

definition request :: "transport \<Rightarrow> string \<Rightarrow> string \<Rightarrow> jsval \<Rightarrow> jsval \<Rightarrow> transport_result outcome" where
  "request tr method path body query =
     (let c = \<lparr>call_method = method, call_path = path,
                call_body = (if body = JUndefined then JNull else body),
                call_query = (if query = JUndefined then JNull else query)\<rparr>
      in (tr c, [c]))"

definition api_get :: "transport \<Rightarrow> string \<Rightarrow> jsval \<Rightarrow> transport_result outcome" where
  "api_get tr path query = request tr ''GET'' path JNull query"

definition api_post :: "transport \<Rightarrow> string \<Rightarrow> jsval \<Rightarrow> jsval \<Rightarrow> transport_result outcome" where
  "api_post tr path body query = request tr ''POST'' path body query"

text \<open>Assignment of a property: in place when the object has it, appended otherwise.\<close>

fun obj_set :: "(string \<times> jsval) list \<Rightarrow> string \<Rightarrow> jsval \<Rightarrow> (string \<times> jsval) list" where
  "obj_set [] k v = [(k, v)]"
| "obj_set ((k', v') # kvs) k v = (if k' = k then (k, v) # kvs else (k', v') # obj_set kvs k v)"

text \<open>\<^verbatim>\<open>{ ...kvs, ...opts }\<close>\<close>

definition spread :: "(string \<times> jsval) list \<Rightarrow> (string \<times> jsval) list \<Rightarrow> (string \<times> jsval) list" where
  "spread kvs opts = foldl (\<lambda>acc kv. obj_set acc (fst kv) (snd kv)) kvs opts"

definition searchKnowledge :: "transport \<Rightarrow> jsval \<Rightarrow> (string \<times> jsval) list \<Rightarrow> transport_result outcome" where
  "searchKnowledge tr query opts =
     api_post tr ''/api/v1/knowledge/search''
       (JObj (spread [(''query'', query), (''limit'', js_or (own opts ''limit'') (JNum 10))] opts))
       JUndefined"

definition listKnowledgeEntries :: "transport \<Rightarrow> jsval \<Rightarrow> transport_result outcome" where
  "listKnowledgeEntries tr query = api_get tr ''/api/v1/knowledge/entries'' query"

definition createKnowledgeEntry :: "transport \<Rightarrow> jsval \<Rightarrow> transport_result outcome" where
  "createKnowledgeEntry tr entry = api_post tr ''/api/v1/knowledge/entries'' entry JUndefined"

definition submitApproval :: "transport \<Rightarrow> jsval \<Rightarrow> transport_result outcome" where
  "submitApproval tr d = api_post tr ''/api/v1/approvals'' d JUndefined"

definition listApprovals :: "transport \<Rightarrow> jsval \<Rightarrow> transport_result outcome" where
  "listApprovals tr query = api_get tr ''/api/v1/approvals'' query"

definition getApproval :: "transport \<Rightarrow> jsval \<Rightarrow> transport_result outcome" where
  "getApproval tr ident =
     (case to_string ident of
        Inl e \<Rightarrow> (Inl e, [])
      | Inr s \<Rightarrow> api_get tr (''/api/v1/approvals/'' @ s) JUndefined)"

definition createRequest :: "transport \<Rightarrow> jsval \<Rightarrow> transport_result outcome" where
  "createRequest tr d = api_post tr ''/api/v1/requests'' d JUndefined"

definition listRequests :: "transport \<Rightarrow> jsval \<Rightarrow> transport_result outcome" where
  "listRequests tr query = api_get tr ''/api/v1/requests'' query"

section \<open>Input validation\<close>

text \<open>
  Modelled from the spec: the validator behind \<^verbatim>\<open>z.object(shape).parse(args)\<close> is a
  library that is not part of the sources.  Per the specification's dispatcher contract,
  every required field must be present and of the declared kind, an enum field must be one
  of the declared values, an optional field may be absent (\<^verbatim>\<open>undefined\<close>), unknown extra
  fields are ignored, and a mismatch fails with a validation error naming the offending
  fields.  The declared kinds are strings, enums of strings and arrays; \<^verbatim>\<open>.describe\<close> only
  attaches documentation.
\<close>

datatype zschema =
    ZString
  | ZEnum "string list"
  | ZArray zschema
  | ZOptional zschema

text \<open>
  Modelled from the spec: the validator reports the issues of all fields, in the order of
  the fields; the result is the values when there is no issue.
\<close>

fun zcollect :: "(zod_issue list + 'a) list \<Rightarrow> zod_issue list + 'a list" where
  "zcollect [] = Inr []"
| "zcollect (r # rs) =
     (case r of
        Inl is \<Rightarrow> (case zcollect rs of Inl js \<Rightarrow> Inl (is @ js) | Inr vs \<Rightarrow> Inl is)
      | Inr v \<Rightarrow> (case zcollect rs of Inl js \<Rightarrow> Inl js | Inr vs \<Rightarrow> Inr (v # vs)))"

text \<open>
  Modelled from the spec: one value against its declared kind, at the path \<open>p\<close>
  (\<^verbatim>\<open>z.string()\<close>, \<^verbatim>\<open>z.enum([...])\<close>, \<^verbatim>\<open>z.array(...)\<close>, \<^verbatim>\<open>.optional()\<close>).
\<close>

fun zparse :: "path_elem list \<Rightarrow> zschema \<Rightarrow> jsval \<Rightarrow> zod_issue list + jsval" where
  "zparse p ZString v = (case v of JStr s \<Rightarrow> Inr v | _ \<Rightarrow> Inl [Invalid_type p])"
| "zparse p (ZEnum vs) v =
     (case v of
        JStr s \<Rightarrow> (if s \<in> set vs then Inr v else Inl [Invalid_enum_value p])
      | _ \<Rightarrow> Inl [Invalid_type p])"
| "zparse p (ZArray sch) v =
     (case v of
        JArr xs \<Rightarrow>
          (case zcollect (map (\<lambda>ix. zparse (p @ [Index (fst ix)]) sch (snd ix))
                              (zip [0..<length xs] xs)) of
             Inl is \<Rightarrow> Inl is
           | Inr ys \<Rightarrow> Inr (JArr ys))
      | _ \<Rightarrow> Inl [Invalid_type p])"
| "zparse p (ZOptional sch) v = (if v = JUndefined then Inr JUndefined else zparse p sch v)"

text \<open>
  Modelled from the spec: \<^verbatim>\<open>z.object(shape).parse(v)\<close>.  The value must be an object; the
  result holds the declared fields only.
\<close>

definition zobject_parse :: "(string \<times> zschema) list \<Rightarrow> jsval \<Rightarrow> zod_issue list + jsval" where
  "zobject_parse shape v =
     (case v of
        JObj kvs \<Rightarrow>
          (case zcollect (map (\<lambda>ks. zparse [Key (fst ks)] (snd ks) (own kvs (fst ks))) shape) of
             Inl is \<Rightarrow> Inl is
           | Inr vs \<Rightarrow> Inr (JObj (zip (map fst shape) vs)))
      | _ \<Rightarrow> Inl [Invalid_type []])"

text \<open>Modelled from the spec: \<^verbatim>\<open>schema.isOptional()\<close>.\<close>

fun isOptional :: "zschema \<Rightarrow> bool" where
  "isOptional (ZOptional sch) = True"
| "isOptional sch = False"

section \<open>Tool handlers (tools.js)\<close>

text \<open>What a handler returns: \<^verbatim>\<open>{ text, data }\<close>, with \<open>JUndefined\<close> for no \<^verbatim>\<open>data\<close>.\<close>

record tool_result =
  result_text :: string
  result_data :: jsval

text \<open>\<^verbatim>\<open>const res = await ...\<close>: a rejection propagates, a result goes on to the rest.\<close>

definition await :: "transport_result outcome \<Rightarrow> (transport_result \<Rightarrow> error + 'a) \<Rightarrow> 'a outcome" where
  "await r k = (case fst r of Inl e \<Rightarrow> (Inl e, snd r) | Inr res \<Rightarrow> (k res, snd r))"

text \<open>\<^verbatim>\<open>throw new Error(`<prefix>${getError(res)}`)\<close>\<close>

definition fail_with :: "string \<Rightarrow> transport_result \<Rightarrow> error + 'a" where
  "fail_with prefix res = bind_err (to_string (getError res)) (\<lambda>m. Inl (Error (prefix @ m)))"

text \<open>
  \<^verbatim>\<open>v > k\<close> for an integer \<open>k\<close>: \<^verbatim>\<open>undefined\<close> and a plain object convert to NaN,
  \<^verbatim>\<open>null\<close> to 0, a boolean to 0 or 1.  A string or an array converts through the text of
  a floating-point literal, which is not followed here.
\<close>

fun js_gt :: "jsval \<Rightarrow> int \<Rightarrow> error + bool" where
  "js_gt JUndefined k = Inr False"
| "js_gt JNull k = Inr (0 > k)"
| "js_gt (JBool b) k = Inr ((if b then 1 else 0) > k)"
| "js_gt (JNum n) k = Inr (n > k)"
| "js_gt (JStr s) k = Inl Unmodelled"
| "js_gt (JArr xs) k = Inl Unmodelled"
| "js_gt (JObj kvs) k = (if ''toString'' \<in> set (map fst kvs) then Inl TypeError else Inr False)"

text \<open>
  \<^verbatim>\<open>v.slice(0, n)\<close>: strings and arrays have the method; on anything else \<^verbatim>\<open>v.slice\<close> is
  \<^verbatim>\<open>undefined\<close> or a data property, and the call raises a TypeError.
\<close>

fun slice0 :: "jsval \<Rightarrow> nat \<Rightarrow> error + jsval" where
  "slice0 (JStr s) n = Inr (JStr (take n s))"
| "slice0 (JArr xs) n = Inr (JArr (take n xs))"
| "slice0 v n = Inl TypeError"

text \<open>\<^verbatim>\<open>v.join(sep)\<close>: only arrays have the method.\<close>

fun js_join :: "jsval \<Rightarrow> string \<Rightarrow> error + string" where
  "js_join (JArr xs) sep =
     bind_err (those_err (map (\<lambda>x. if nullish x then Inr [] else to_string x) xs))
       (\<lambda>ss. Inr (join sep ss))"
| "js_join v sep = Inl TypeError"

text \<open>\<^verbatim>\<open>v.map((x, i) => f(i, x))\<close>: only arrays have the method; the first exception stops it.\<close>

fun js_map :: "(nat \<Rightarrow> jsval \<Rightarrow> error + 'a) \<Rightarrow> jsval \<Rightarrow> error + 'a list" where
  "js_map f (JArr xs) = those_err (map (\<lambda>ix. f (fst ix) (snd ix)) (zip [0..<length xs] xs))"
| "js_map f v = Inl TypeError"

definition icon_check :: string where
  "icon_check = [CHR 0xE2, CHR 0x9C, CHR 0x85]"

definition icon_hourglass :: string where
  "icon_hourglass = [CHR 0xE2, CHR 0x8F, CHR 0xB3]"

definition icon_cross :: string where
  "icon_cross = [CHR 0xE2, CHR 0x9D, CHR 0x8C]"

definition icon_books :: string where
  "icon_books = [CHR 0xF0, CHR 0x9F, CHR 0x93, CHR 0x9A]"

definition icon_clipboard :: string where
  "icon_clipboard = [CHR 0xF0, CHR 0x9F, CHR 0x93, CHR 0x8B]"

definition icon_cycle :: string where
  "icon_cycle = [CHR 0xF0, CHR 0x9F, CHR 0x94, CHR 0x84]"

definition icon_red :: string where
  "icon_red = [CHR 0xF0, CHR 0x9F, CHR 0x94, CHR 0xB4]"

definition icon_orange :: string where
  "icon_orange = [CHR 0xF0, CHR 0x9F, CHR 0x9F, CHR 0xA0]"

definition icon_white :: string where
  "icon_white = [CHR 0xE2, CHR 0x9A, CHR 0xAA]"

definition icon_yellow :: string where
  "icon_yellow = [CHR 0xF0, CHR 0x9F, CHR 0x9F, CHR 0xA1]"

definition em_dash :: string where
  "em_dash = [CHR 0xE2, CHR 0x80, CHR 0x94]"

subsection \<open>\<^verbatim>\<open>beeboo_knowledge_search\<close>\<close>

text \<open>
  The content of one result:
  \<^verbatim>\<open>r.content ? (r.content.length > 200 ? r.content.slice(0, 200) + '...' : r.content) : ''\<close>
\<close>

definition search_content :: "jsval \<Rightarrow> error + jsval" where
  "search_content r =
     (let c = get r ''content'' in
      if truthy c then
        bind_err (js_gt (get c ''length'') 200) (\<lambda>long.
          if long then
            bind_err (slice0 c 200) (\<lambda>h.
            bind_err (to_string h) (\<lambda>s. Inr (JStr (s @ ''...''))))
          else Inr c)
      else Inr (JStr []))"

text \<open>
  The callback of \<^verbatim>\<open>results.map\<close>:
  \<^verbatim>\<open>`${i + 1}. **${title}**${r.id ? ` (${r.id})` : ''}\n   ${content}`\<close>, here as the
  heading up to the line break and the whole line.  Reading \<^verbatim>\<open>r.title\<close> raises when \<open>r\<close>
  is \<^verbatim>\<open>null\<close> or \<^verbatim>\<open>undefined\<close>.
\<close>

definition search_heading :: "nat \<Rightarrow> jsval \<Rightarrow> error + string" where
  "search_heading i r =
     (let title = js_or (js_or (get r ''title'') (get r ''key'')) (JStr ''(untitled)'') in
      bind_err (to_string title) (\<lambda>t.
      bind_err (if truthy (get r ''id'')
                then bind_err (to_string (get r ''id'')) (\<lambda>s. Inr ('' ('' @ s @ '')''))
                else Inr []) (\<lambda>ident.
        Inr (show_nat (i + 1) @ ''. **'' @ t @ ''**'' @ ident))))"

definition search_item :: "nat \<Rightarrow> jsval \<Rightarrow> error + string" where
  "search_item i r =
     (if nullish r then Inl TypeError
      else
        bind_err (search_content r) (\<lambda>content.
        bind_err (search_heading i r) (\<lambda>h.
        bind_err (to_string content) (\<lambda>c.
          Inr (h @ nl @ ''   '' @ c)))))"

definition knowledge_search_result :: "jsval \<Rightarrow> transport_result \<Rightarrow> error + tool_result" where
  "knowledge_search_result query res =
     (if \<not> isOk res then fail_with ''Search failed: '' res
      else
        let d = getData res;
            results = (if isArray d then d else js_or (opt_get d ''results'') (JArr []))
        in
          if get results ''length'' = JNum 0 then
            bind_err (to_string query) (\<lambda>q.
              Inr \<lparr>result_text = ''No results found for '' @ dq @ q @ dq,
                   result_data = JUndefined\<rparr>)
          else
            bind_err (js_map search_item results) (\<lambda>formatted.
            bind_err (to_string (get results ''length'')) (\<lambda>n.
            bind_err (to_string query) (\<lambda>q.
              Inr \<lparr>result_text = ''Found '' @ n @ '' result(s) for '' @ dq @ q @ dq @ '':''
                                   @ nl @ nl @ join (nl @ nl) formatted,
                   result_data = results\<rparr>))))"

definition knowledge_search_handler :: "transport \<Rightarrow> jsval \<Rightarrow> tool_result outcome" where
  "knowledge_search_handler tr v =
     (if nullish v then (Inl TypeError, [])
      else
        let query = get v ''query'' in
        await (searchKnowledge tr query [(''limit'', JNum 10)]) (knowledge_search_result query))"

subsection \<open>\<^verbatim>\<open>beeboo_knowledge_add\<close>\<close>

text \<open>
  \<^verbatim>\<open>toLowerCase\<close> on the code units of the embedding: the ASCII capitals and the
  Latin-1 capitals (\<open>0xC0\<close> to \<open>0xDE\<close> without the multiplication sign \<open>0xD7\<close>).
\<close>

definition toLowerCase_char :: "char \<Rightarrow> char" where
  "toLowerCase_char c =
     (let n = (of_char c :: nat) in
      if (65 \<le> n \<and> n \<le> 90) \<or> (192 \<le> n \<and> n \<le> 222 \<and> n \<noteq> 215) then char_of (n + 32) else c)"

definition toLowerCase :: "string \<Rightarrow> string" where
  "toLowerCase s = map toLowerCase_char s"

text \<open>The character class \<^verbatim>\<open>[a-z0-9]\<close>.\<close>

definition lower_alnum :: "char \<Rightarrow> bool" where
  "lower_alnum c =
     (let n = (of_char c :: nat) in (97 \<le> n \<and> n \<le> 122) \<or> (48 \<le> n \<and> n \<le> 57))"

text \<open>\<^verbatim>\<open>.replace(/[^a-z0-9]+/g, '-')\<close>: each maximal run outside the class becomes one dash.\<close>

function replace_runs :: "string \<Rightarrow> string" where
  "replace_runs [] = []"
| "replace_runs (c # cs) =
     (if lower_alnum c then c # replace_runs cs
      else CHR ''-'' # replace_runs (dropWhile (\<lambda>x. \<not> lower_alnum x) cs))"
  by pat_completeness auto
termination
  by (relation "measure length") (auto simp: le_imp_less_Suc length_dropWhile_le)

text \<open>\<^verbatim>\<open>.replace(/^-|-$/g, '')\<close>: a dash at the start goes, then a dash at the end.\<close>

definition strip_edges :: "string \<Rightarrow> string" where
  "strip_edges s =
     (let s1 = (case s of [] \<Rightarrow> [] | c # cs \<Rightarrow> if c = CHR ''-'' then cs else s)
      in if s1 \<noteq> [] \<and> last s1 = CHR ''-'' then butlast s1 else s1)"

text \<open>The \<^verbatim>\<open>key\<close> of a new entry.\<close>

definition slug :: "string \<Rightarrow> string" where
  "slug title = strip_edges (replace_runs (toLowerCase title))"

definition knowledge_add_result :: "string \<Rightarrow> transport_result \<Rightarrow> error + tool_result" where
  "knowledge_add_result title res =
     (if \<not> isOk res then fail_with ''Failed to create entry: '' res
      else
        let d = getData res in
        bind_err (if truthy (opt_get d ''id'')
                  then bind_err (to_string (get d ''id'')) (\<lambda>s. Inr ('' (ID: '' @ s @ '')''))
                  else Inr []) (\<lambda>ident.
          Inr \<lparr>result_text = icon_check @ '' Knowledge entry created: '' @ dq @ title @ dq @ ident,
               result_data = d\<rparr>))"

definition knowledge_add_handler :: "transport \<Rightarrow> jsval \<Rightarrow> tool_result outcome" where
  "knowledge_add_handler tr v =
     (if nullish v then (Inl TypeError, [])
      else
        let title = get v ''title''; content = get v ''content''; tags = get v ''tags'' in
        case title of
          JStr t \<Rightarrow>
            (case (if truthy tags then js_gt (get tags ''length'') 0 else Inr False) of
               Inl e \<Rightarrow> (Inl e, [])
             | Inr has_tags \<Rightarrow>
                 let entry = JObj ([(''title'', title), (''content'', content),
                                    (''namespace'', JStr ''default''),
                                    (''content_type'', JStr ''text''),
                                    (''key'', JStr (slug t))]
                                   @ (if has_tags then [(''tags'', tags)] else []))
                 in await (createKnowledgeEntry tr entry) (knowledge_add_result t))
        | _ \<Rightarrow> (Inl TypeError, []))"

subsection \<open>\<^verbatim>\<open>beeboo_knowledge_list\<close>\<close>

text \<open>\<^verbatim>\<open>e.id?.slice(0, 8) || '<em dash>'\<close>\<close>

definition short_id :: "jsval \<Rightarrow> error + jsval" where
  "short_id e =
     (let i = get e ''id'' in
      if nullish i then Inr (JStr em_dash)
      else bind_err (slice0 i 8) (\<lambda>h. Inr (js_or h (JStr em_dash))))"

definition knowledge_list_item :: "nat \<Rightarrow> jsval \<Rightarrow> error + string" where
  "knowledge_list_item i e =
     (if nullish e then Inl TypeError
      else
        bind_err (short_id e) (\<lambda>ident.
        let title = js_or (js_or (get e ''title'') (get e ''key'')) (JStr ''(untitled)'') in
        bind_err (if truthy (opt_get (get e ''tags'') ''length'')
                  then bind_err (js_join (get e ''tags'') '', '') (\<lambda>s. Inr ('' ['' @ s @ '']''))
                  else Inr []) (\<lambda>tags.
        bind_err (to_string title) (\<lambda>t.
        bind_err (to_string ident) (\<lambda>d.
          Inr (show_nat (i + 1) @ ''. '' @ t @ '' ('' @ d @ '')'' @ tags))))))"

definition knowledge_list_result :: "transport_result \<Rightarrow> error + tool_result" where
  "knowledge_list_result res =
     (if \<not> isOk res then fail_with ''Failed to list entries: '' res
      else
        let entries = getData res;
            items = (if isArray entries then entries else JArr [])
        in
          if get items ''length'' = JNum 0 then
            Inr \<lparr>result_text = ''No knowledge entries found.'', result_data = JArr []\<rparr>
          else
            bind_err (js_map knowledge_list_item items) (\<lambda>formatted.
            bind_err (to_string (get items ''length'')) (\<lambda>n.
              Inr \<lparr>result_text = icon_books @ '' '' @ n @ '' knowledge entries:''
                                   @ nl @ nl @ join nl formatted,
                   result_data = items\<rparr>)))"

definition knowledge_list_handler :: "transport \<Rightarrow> jsval \<Rightarrow> tool_result outcome" where
  "knowledge_list_handler tr v = await (listKnowledgeEntries tr (JObj [])) knowledge_list_result"

subsection \<open>\<^verbatim>\<open>beeboo_approval_request\<close>\<close>

definition approval_request_result :: "jsval \<Rightarrow> transport_result \<Rightarrow> error + tool_result" where
  "approval_request_result title res =
     (if \<not> isOk res then fail_with ''Failed to submit approval: '' res
      else
        let result = getData res in
        bind_err (to_string title) (\<lambda>t.
        bind_err (to_string (js_or (opt_get result ''id'') (JStr ''unknown''))) (\<lambda>i.
          Inr \<lparr>result_text = icon_hourglass @ '' Approval requested: '' @ dq @ t @ dq @ nl
                                 @ ''ID: '' @ i @ nl @ ''Status: pending'' @ nl @ nl
                                 @ ''Wait for human approval before proceeding.'',
               result_data = result\<rparr>)))"

definition approval_request_handler :: "transport \<Rightarrow> jsval \<Rightarrow> tool_result outcome" where
  "approval_request_handler tr v =
     (if nullish v then (Inl TypeError, [])
      else
        let title = get v ''title''; description = get v ''description'';
            d = JObj [(''title'', title), (''description'', description),
                      (''category'', JStr ''general''), (''urgency'', JStr ''normal'')]
        in await (submitApproval tr d) (approval_request_result title))"

subsection \<open>\<^verbatim>\<open>beeboo_approval_check\<close>\<close>

text \<open>\<^verbatim>\<open>if (v) { text += `\n<label>: ${v}` }\<close>\<close>

definition append_field :: "string \<Rightarrow> jsval \<Rightarrow> string \<Rightarrow> error + string" where
  "append_field label v text =
     (if truthy v then bind_err (to_string v) (\<lambda>s. Inr (text @ nl @ label @ '': '' @ s))
      else Inr text)"

definition approval_check_result :: "jsval \<Rightarrow> transport_result \<Rightarrow> error + tool_result" where
  "approval_check_result ident res =
     (if \<not> isOk res then
        (if res_status res = 404
         then bind_err (to_string ident) (\<lambda>i. Inl (Error (''Approval not found: '' @ i)))
         else fail_with ''Failed to check approval: '' res)
      else
        let approval = getData res in
        if nullish approval then Inl TypeError
        else
          let statusIcon = (if get approval ''status'' = JStr ''approved'' then icon_check
                            else if get approval ''status'' = JStr ''denied'' then icon_cross
                            else icon_hourglass)
          in
          bind_err (to_string (js_or (get approval ''title'') ident)) (\<lambda>t.
          bind_err (to_string (js_or (get approval ''status'') (JStr ''pending''))) (\<lambda>s.
          bind_err (append_field ''Description'' (get approval ''description'')
                      (statusIcon @ '' Approval: '' @ t @ nl @ ''Status: '' @ s)) (\<lambda>text1.
          bind_err (append_field ''Decided'' (get approval ''decided_at'') text1) (\<lambda>text2.
          bind_err (append_field ''Note'' (get approval ''decision_note'') text2) (\<lambda>text3.
            Inr \<lparr>result_text = text3, result_data = approval\<rparr>))))))"

definition approval_check_handler :: "transport \<Rightarrow> jsval \<Rightarrow> tool_result outcome" where
  "approval_check_handler tr v =
     (if nullish v then (Inl TypeError, [])
      else
        let ident = get v ''id'' in
        await (getApproval tr ident) (approval_check_result ident))"

subsection \<open>\<^verbatim>\<open>beeboo_approvals_list\<close>\<close>

definition approvals_list_item :: "nat \<Rightarrow> jsval \<Rightarrow> error + string" where
  "approvals_list_item i a =
     (if nullish a then Inl TypeError
      else
        bind_err (short_id a) (\<lambda>ident.
        let title = js_or (get a ''title'') (JStr ''(untitled)'');
            statusIcon = (if get a ''status'' = JStr ''approved'' then icon_check
                          else if get a ''status'' = JStr ''denied'' then icon_cross
                          else icon_hourglass)
        in
        bind_err (to_string title) (\<lambda>t.
        bind_err (to_string ident) (\<lambda>d.
        bind_err (to_string (js_or (get a ''status'') (JStr ''pending''))) (\<lambda>s.
          Inr (show_nat (i + 1) @ ''. '' @ statusIcon @ '' '' @ t @ '' ('' @ d @ '') - '' @ s))))))"

text \<open>\<^verbatim>\<open>status ? ` with status "${status}"` : ''\<close>\<close>

definition filterText :: "jsval \<Rightarrow> error + string" where
  "filterText status =
     (if truthy status
      then bind_err (to_string status) (\<lambda>s. Inr ('' with status '' @ dq @ s @ dq))
      else Inr [])"

definition approvals_list_result :: "jsval \<Rightarrow> transport_result \<Rightarrow> error + tool_result" where
  "approvals_list_result status res =
     (if \<not> isOk res then fail_with ''Failed to list approvals: '' res
      else
        let approvals = getData res;
            items = (if isArray approvals then approvals else JArr [])
        in
          if get items ''length'' = JNum 0 then
            bind_err (filterText status) (\<lambda>ft.
              Inr \<lparr>result_text = ''No approvals found'' @ ft @ ''.'', result_data = JArr []\<rparr>)
          else
            bind_err (js_map approvals_list_item items) (\<lambda>formatted.
            bind_err (to_string (get items ''length'')) (\<lambda>n.
              Inr \<lparr>result_text = icon_clipboard @ '' '' @ n @ '' approval(s):''
                                   @ nl @ nl @ join nl formatted,
                   result_data = items\<rparr>)))"

definition approvals_list_handler :: "transport \<Rightarrow> jsval \<Rightarrow> tool_result outcome" where
  "approvals_list_handler tr v =
     (if nullish v then (Inl TypeError, [])
      else
        let status = get v ''status'';
            query = (if truthy status then JObj [(''status'', status)] else JObj [])
        in await (listApprovals tr query) (approvals_list_result status))"

subsection \<open>\<^verbatim>\<open>beeboo_request_create\<close>\<close>

definition request_create_result :: "jsval \<Rightarrow> jsval \<Rightarrow> transport_result \<Rightarrow> error + tool_result" where
  "request_create_result title priority res =
     (if \<not> isOk res then fail_with ''Failed to create request: '' res
      else
        let result = getData res in
        bind_err (to_string title) (\<lambda>t.
        bind_err (to_string (js_or (opt_get result ''id'') (JStr ''unknown''))) (\<lambda>i.
        bind_err (to_string priority) (\<lambda>p.
          Inr \<lparr>result_text = icon_clipboard @ '' Work request created: '' @ dq @ t @ dq @ nl
                                 @ ''ID: '' @ i @ nl @ ''Priority: '' @ p,
               result_data = result\<rparr>))))"

definition request_create_handler :: "transport \<Rightarrow> jsval \<Rightarrow> tool_result outcome" where
  "request_create_handler tr v =
     (if nullish v then (Inl TypeError, [])
      else
        let title = get v ''title''; description = get v ''description'';
            priority = get v ''priority'';
            d = [(''title'', title), (''description'', js_or description (JStr [])),
                 (''priority'', js_or priority (JStr ''medium''))]
        in await (createRequest tr (JObj d)) (request_create_result title (own d ''priority'')))"

subsection \<open>\<^verbatim>\<open>beeboo_requests_list\<close>\<close>

definition requests_list_item :: "nat \<Rightarrow> jsval \<Rightarrow> error + string" where
  "requests_list_item i r =
     (if nullish r then Inl TypeError
      else
        bind_err (short_id r) (\<lambda>ident.
        let title = js_or (get r ''title'') (JStr ''(untitled)'');
            statusIcon = (if get r ''status'' = JStr ''resolved'' then icon_check
                          else if get r ''status'' = JStr ''in_progress'' then icon_cycle
                          else icon_clipboard);
            priorityBadge = (if get r ''priority'' = JStr ''critical'' then icon_red
                             else if get r ''priority'' = JStr ''high'' then icon_orange
                             else if get r ''priority'' = JStr ''low'' then icon_white
                             else icon_yellow)
        in
        bind_err (to_string title) (\<lambda>t.
        bind_err (to_string ident) (\<lambda>d.
          Inr (show_nat (i + 1) @ ''. '' @ statusIcon @ '' '' @ priorityBadge @ '' '' @ t
               @ '' ('' @ d @ '')'')))))"

definition requests_list_result :: "jsval \<Rightarrow> transport_result \<Rightarrow> error + tool_result" where
  "requests_list_result status res =
     (if \<not> isOk res then fail_with ''Failed to list requests: '' res
      else
        let requests = getData res;
            items = (if isArray requests then requests else JArr [])
        in
          if get items ''length'' = JNum 0 then
            bind_err (filterText status) (\<lambda>ft.
              Inr \<lparr>result_text = ''No work requests found'' @ ft @ ''.'', result_data = JArr []\<rparr>)
          else
            bind_err (js_map requests_list_item items) (\<lambda>formatted.
            bind_err (to_string (get items ''length'')) (\<lambda>n.
              Inr \<lparr>result_text = icon_clipboard @ '' '' @ n @ '' work request(s):''
                                   @ nl @ nl @ join nl formatted,
                   result_data = items\<rparr>)))"

definition requests_list_handler :: "transport \<Rightarrow> jsval \<Rightarrow> tool_result outcome" where
  "requests_list_handler tr v =
     (if nullish v then (Inl TypeError, [])
      else
        let status = get v ''status'';
            query = (if truthy status then JObj [(''status'', status)] else JObj [])
        in await (listRequests tr query) (requests_list_result status))"

section \<open>The tool registry and \<^verbatim>\<open>executeTool\<close>\<close>

record tool =
  tool_name :: string
  description :: string
  inputSchema :: "(string \<times> zschema) list"
  handler :: "transport \<Rightarrow> jsval \<Rightarrow> tool_result outcome"

definition tools :: "(string \<times> tool) list" where
  "tools =
    [(''beeboo_knowledge_search'',
      \<lparr>tool_name = ''beeboo_knowledge_search'',
       description = ''Search the BeeBoo knowledge base for information using semantic search'',
       inputSchema = [(''query'', ZString)],
       handler = knowledge_search_handler\<rparr>),
     (''beeboo_knowledge_add'',
      \<lparr>tool_name = ''beeboo_knowledge_add'',
       description = ''Add a new entry to the BeeBoo knowledge base'',
       inputSchema = [(''title'', ZString), (''content'', ZString),
                      (''tags'', ZOptional (ZArray ZString))],
       handler = knowledge_add_handler\<rparr>),
     (''beeboo_knowledge_list'',
      \<lparr>tool_name = ''beeboo_knowledge_list'',
       description = ''List all knowledge base entries'',
       inputSchema = [],
       handler = knowledge_list_handler\<rparr>),
     (''beeboo_approval_request'',
      \<lparr>tool_name = ''beeboo_approval_request'',
       description = ''Request human approval for an action. Use this when you need explicit permission before proceeding with a potentially impactful operation.'',
       inputSchema = [(''title'', ZString), (''description'', ZString)],
       handler = approval_request_handler\<rparr>),
     (''beeboo_approval_check'',
      \<lparr>tool_name = ''beeboo_approval_check'',
       description = ''Check the status of an approval request'',
       inputSchema = [(''id'', ZString)],
       handler = approval_check_handler\<rparr>),
     (''beeboo_approvals_list'',
      \<lparr>tool_name = ''beeboo_approvals_list'',
       description = ''List all approval requests with optional status filter'',
       inputSchema = [(''status'', ZOptional (ZEnum [''pending'', ''approved'', ''rejected'']))],
       handler = approvals_list_handler\<rparr>),
     (''beeboo_request_create'',
      \<lparr>tool_name = ''beeboo_request_create'',
       description = ''Create a work request for the team. Use this to queue up tasks that need human attention or execution.'',
       inputSchema = [(''title'', ZString), (''description'', ZOptional ZString),
                      (''priority'', ZOptional (ZEnum [''low'', ''medium'', ''high'', ''critical'']))],
       handler = request_create_handler\<rparr>),
     (''beeboo_requests_list'',
      \<lparr>tool_name = ''beeboo_requests_list'',
       description = ''List all work requests with optional status filter'',
       inputSchema = [(''status'', ZOptional (ZEnum [''open'', ''in_progress'', ''resolved'']))],
       handler = requests_list_handler\<rparr>)]"

text \<open>
  \<^verbatim>\<open>tools[name]\<close> reads a property of an object literal, so a name that is not a key of
  the registry still finds what every object inherits.  Such a value is truthy and has no
  \<^verbatim>\<open>inputSchema\<close>.
\<close>

definition object_prototype_names :: "string list" where
  "object_prototype_names =
     [''constructor'', ''__defineGetter__'', ''__defineSetter__'', ''hasOwnProperty'',
      ''__lookupGetter__'', ''__lookupSetter__'', ''isPrototypeOf'', ''propertyIsEnumerable'',
      ''toString'', ''valueOf'', ''__proto__'', ''toLocaleString'']"

datatype 'a property = Own 'a | Inherited | Missing

definition tools_get :: "string \<Rightarrow> tool property" where
  "tools_get name =
     (case map_of tools name of
        Some t \<Rightarrow> Own t
      | None \<Rightarrow> if name \<in> set object_prototype_names then Inherited else Missing)"

text \<open>
  \<^verbatim>\<open>executeTool(name, args)\<close>.  For an inherited name the validator is built from an
  \<^verbatim>\<open>undefined\<close> shape: it rejects a value that is not an object, and otherwise fails
  when it reads the keys of its shape.
\<close>

definition executeTool :: "transport \<Rightarrow> string \<Rightarrow> jsval \<Rightarrow> tool_result outcome" where
  "executeTool tr name args =
     (case tools_get name of
        Missing \<Rightarrow> (Inl (Error (''Unknown tool: '' @ name)), [])
      | Inherited \<Rightarrow>
          (case js_or args (JObj []) of
             JObj kvs \<Rightarrow> (Inl TypeError, [])
           | _ \<Rightarrow> (Inl (ZodError [Invalid_type []]), []))
      | Own t \<Rightarrow>
          (case zobject_parse (inputSchema t) (js_or args (JObj [])) of
             Inl issues \<Rightarrow> (Inl (ZodError issues), [])
           | Inr validated \<Rightarrow> handler t tr validated))"

section \<open>The protocol bridge (server.js)\<close>

record content_block =
  block_type :: string
  block_text :: string

text \<open>
  The protocol response, as the callbacks build it; \<open>JUndefined\<close> is an omitted \<^verbatim>\<open>structuredContent\<close>,
  \<open>None\<close> an omitted \<^verbatim>\<open>isError\<close>.
\<close>

record protocol_response =
  content :: "content_block list"
  structuredContent :: jsval
  isError :: "bool option"

text \<open>
  \<^verbatim>\<open>error.message\<close>.  The text of an error raised by the validator or by the language
  runtime is theirs to choose: it is the parameter \<open>lm\<close>.
\<close>

definition message :: "(error \<Rightarrow> string) \<Rightarrow> error \<Rightarrow> string" where
  "message lm e = (case e of Error m \<Rightarrow> m | _ \<Rightarrow> lm e)"

text \<open>The \<^verbatim>\<open>catch\<close> branch, the same in every callback.\<close>

definition error_response :: "(error \<Rightarrow> string) \<Rightarrow> error \<Rightarrow> protocol_response" where
  "error_response lm e =
     \<lparr>content = [\<lparr>block_type = ''text'', block_text = ''Error: '' @ message lm e\<rparr>],
      structuredContent = JUndefined,
      isError = Some True\<rparr>"

text \<open>
  The registered callbacks.  The parameter list destructures the raw arguments before
  the \<^verbatim>\<open>try\<close>, so \<^verbatim>\<open>null\<close> or \<^verbatim>\<open>undefined\<close> in their place raises a TypeError that the
  callback does not catch (\<open>Inl\<close> of the outcome).
\<close>

definition knowledge_search_callback :: "transport \<Rightarrow> (error \<Rightarrow> string) \<Rightarrow> jsval \<Rightarrow> protocol_response outcome" where
  "knowledge_search_callback tr lm raw =
     (if nullish raw then (Inl TypeError, [])
      else
        case executeTool tr ''beeboo_knowledge_search'' (JObj [(''query'', get raw ''query'')]) of
          (Inr result, calls) \<Rightarrow>
            (Inr \<lparr>content = [\<lparr>block_type = ''text'', block_text = result_text result\<rparr>],
                  structuredContent = (if truthy (result_data result)
                                       then JObj [(''results'', result_data result)]
                                       else JUndefined),
                  isError = None\<rparr>, calls)
        | (Inl e, calls) \<Rightarrow> (Inr (error_response lm e), calls))"

definition knowledge_add_callback :: "transport \<Rightarrow> (error \<Rightarrow> string) \<Rightarrow> jsval \<Rightarrow> protocol_response outcome" where
  "knowledge_add_callback tr lm raw =
     (if nullish raw then (Inl TypeError, [])
      else
        case executeTool tr ''beeboo_knowledge_add''
               (JObj [(''title'', get raw ''title''), (''content'', get raw ''content''),
                      (''tags'', get raw ''tags'')]) of
          (Inr result, calls) \<Rightarrow>
            (Inr \<lparr>content = [\<lparr>block_type = ''text'', block_text = result_text result\<rparr>],
                  structuredContent = result_data result,
                  isError = None\<rparr>, calls)
        | (Inl e, calls) \<Rightarrow> (Inr (error_response lm e), calls))"

definition knowledge_list_callback :: "transport \<Rightarrow> (error \<Rightarrow> string) \<Rightarrow> jsval \<Rightarrow> protocol_response outcome" where
  "knowledge_list_callback tr lm raw =
     (case executeTool tr ''beeboo_knowledge_list'' (JObj []) of
        (Inr result, calls) \<Rightarrow>
          (Inr \<lparr>content = [\<lparr>block_type = ''text'', block_text = result_text result\<rparr>],
                structuredContent = JObj [(''entries'', result_data result)],
                isError = None\<rparr>, calls)
      | (Inl e, calls) \<Rightarrow> (Inr (error_response lm e), calls))"

definition approval_request_callback :: "transport \<Rightarrow> (error \<Rightarrow> string) \<Rightarrow> jsval \<Rightarrow> protocol_response outcome" where
  "approval_request_callback tr lm raw =
     (if nullish raw then (Inl TypeError, [])
      else
        case executeTool tr ''beeboo_approval_request''
               (JObj [(''title'', get raw ''title''), (''description'', get raw ''description'')]) of
          (Inr result, calls) \<Rightarrow>
            (Inr \<lparr>content = [\<lparr>block_type = ''text'', block_text = result_text result\<rparr>],
                  structuredContent = result_data result,
                  isError = None\<rparr>, calls)
        | (Inl e, calls) \<Rightarrow> (Inr (error_response lm e), calls))"

definition approval_check_callback :: "transport \<Rightarrow> (error \<Rightarrow> string) \<Rightarrow> jsval \<Rightarrow> protocol_response outcome" where
  "approval_check_callback tr lm raw =
     (if nullish raw then (Inl TypeError, [])
      else
        case executeTool tr ''beeboo_approval_check'' (JObj [(''id'', get raw ''id'')]) of
          (Inr result, calls) \<Rightarrow>
            (Inr \<lparr>content = [\<lparr>block_type = ''text'', block_text = result_text result\<rparr>],
                  structuredContent = result_data result,
                  isError = None\<rparr>, calls)
        | (Inl e, calls) \<Rightarrow> (Inr (error_response lm e), calls))"

definition approvals_list_callback :: "transport \<Rightarrow> (error \<Rightarrow> string) \<Rightarrow> jsval \<Rightarrow> protocol_response outcome" where
  "approvals_list_callback tr lm raw =
     (if nullish raw then (Inl TypeError, [])
      else
        case executeTool tr ''beeboo_approvals_list'' (JObj [(''status'', get raw ''status'')]) of
          (Inr result, calls) \<Rightarrow>
            (Inr \<lparr>content = [\<lparr>block_type = ''text'', block_text = result_text result\<rparr>],
                  structuredContent = JObj [(''approvals'', result_data result)],
                  isError = None\<rparr>, calls)
        | (Inl e, calls) \<Rightarrow> (Inr (error_response lm e), calls))"

definition request_create_callback :: "transport \<Rightarrow> (error \<Rightarrow> string) \<Rightarrow> jsval \<Rightarrow> protocol_response outcome" where
  "request_create_callback tr lm raw =
     (if nullish raw then (Inl TypeError, [])
      else
        case executeTool tr ''beeboo_request_create''
               (JObj [(''title'', get raw ''title''), (''description'', get raw ''description''),
                      (''priority'', get raw ''priority'')]) of
          (Inr result, calls) \<Rightarrow>
            (Inr \<lparr>content = [\<lparr>block_type = ''text'', block_text = result_text result\<rparr>],
                  structuredContent = result_data result,
                  isError = None\<rparr>, calls)
        | (Inl e, calls) \<Rightarrow> (Inr (error_response lm e), calls))"

definition requests_list_callback :: "transport \<Rightarrow> (error \<Rightarrow> string) \<Rightarrow> jsval \<Rightarrow> protocol_response outcome" where
  "requests_list_callback tr lm raw =
     (if nullish raw then (Inl TypeError, [])
      else
        case executeTool tr ''beeboo_requests_list'' (JObj [(''status'', get raw ''status'')]) of
          (Inr result, calls) \<Rightarrow>
            (Inr \<lparr>content = [\<lparr>block_type = ''text'', block_text = result_text result\<rparr>],
                  structuredContent = JObj [(''requests'', result_data result)],
                  isError = None\<rparr>, calls)
        | (Inl e, calls) \<Rightarrow> (Inr (error_response lm e), calls))"

text \<open>
  \<^verbatim>\<open>registerTools(server)\<close>: what \<^verbatim>\<open>server.registerTool\<close> receives for each tool, in
  the order of registration: the name, the description and the input schema, and the
  callback.
\<close>

record registered_tool =
  reg_description :: string
  reg_inputSchema :: "(string \<times> zschema) list"
  reg_callback :: "transport \<Rightarrow> (error \<Rightarrow> string) \<Rightarrow> jsval \<Rightarrow> protocol_response outcome"

definition registerTools :: "(string \<times> registered_tool) list" where
  "registerTools =
     [(''beeboo_knowledge_search'',
       \<lparr>reg_description = ''Search the BeeBoo knowledge base for information using semantic search'',
        reg_inputSchema = [(''query'', ZString)],
        reg_callback = knowledge_search_callback\<rparr>),
      (''beeboo_knowledge_add'',
       \<lparr>reg_description = ''Add a new entry to the BeeBoo knowledge base'',
        reg_inputSchema = [(''title'', ZString), (''content'', ZString),
                           (''tags'', ZOptional (ZArray ZString))],
        reg_callback = knowledge_add_callback\<rparr>),
      (''beeboo_knowledge_list'',
       \<lparr>reg_description = ''List all knowledge base entries'',
        reg_inputSchema = [],
        reg_callback = knowledge_list_callback\<rparr>),
      (''beeboo_approval_request'',
       \<lparr>reg_description = ''Request human approval for an action. Use this when you need explicit permission before proceeding with a potentially impactful operation.'',
        reg_inputSchema = [(''title'', ZString), (''description'', ZString)],
        reg_callback = approval_request_callback\<rparr>),
      (''beeboo_approval_check'',
       \<lparr>reg_description = ''Check the status of an approval request'',
        reg_inputSchema = [(''id'', ZString)],
        reg_callback = approval_check_callback\<rparr>),
      (''beeboo_approvals_list'',
       \<lparr>reg_description = ''List all approval requests with optional status filter'',
        reg_inputSchema = [(''status'', ZOptional (ZEnum [''pending'', ''approved'', ''rejected'']))],
        reg_callback = approvals_list_callback\<rparr>),
      (''beeboo_request_create'',
       \<lparr>reg_description = ''Create a work request for the team. Use this to queue up tasks that need human attention or execution.'',
        reg_inputSchema = [(''title'', ZString), (''description'', ZOptional ZString),
                           (''priority'', ZOptional (ZEnum [''low'', ''medium'', ''high'', ''critical'']))],
        reg_callback = request_create_callback\<rparr>),
      (''beeboo_requests_list'',
       \<lparr>reg_description = ''List all work requests with optional status filter'',
        reg_inputSchema = [(''status'', ZOptional (ZEnum [''open'', ''in_progress'', ''resolved'']))],
        reg_callback = requests_list_callback\<rparr>)]"

text \<open>
  The callback registered under a name, run on a value in the place of its arguments;
  \<open>None\<close> when no tool is registered under the name.
\<close>

definition registered_callback :: "transport \<Rightarrow> (error \<Rightarrow> string) \<Rightarrow> string \<Rightarrow> jsval \<Rightarrow> protocol_response outcome option" where
  "registered_callback tr lm name raw =
     map_option (\<lambda>reg. reg_callback reg tr lm raw) (map_of registerTools name)"

subsection \<open>The protocol layer\<close>





text \<open>The pairs of a tool and one of its required arguments, as \<^verbatim>\<open>getToolDefinitions\<close> lists them.\<close>

definition required_arguments :: "(string \<times> string) list" where
  "required_arguments =
     concat (map (\<lambda>nt. map (\<lambda>ks. (tool_name (snd nt), fst ks))
                          (filter (\<lambda>ks. \<not> isOptional (snd ks)) (inputSchema (snd nt)))) tools)"

section \<open>The slug, as the specification words it\<close>






section \<open>Containment of one string in another\<close>

text \<open>\<open>str_includes s sub\<close>: the string \<open>sub\<close> occurs in \<open>s\<close> at some position.\<close>

fun str_includes :: "string \<Rightarrow> string \<Rightarrow> bool" where
  "str_includes [] sub = (sub = [])"
| "str_includes (c # cs) sub = (take (length sub) (c # cs) = sub \<or> str_includes cs sub)"

section \<open>Example environments\<close>

text \<open>
  For statements at concrete inputs: the transport of a backend that answers every call
  with the same result, and one choice of the texts of validator and runtime errors.
\<close>

definition answering :: "transport_result \<Rightarrow> transport" where
  "answering res c = Inr res"

definition sample_text :: "error \<Rightarrow> string" where
  "sample_text e =
     (case e of
        Error m \<Rightarrow> m
      | ZodError issues \<Rightarrow> ''Required''
      | TypeError \<Rightarrow> ''TypeError''
      | Unmodelled \<Rightarrow> [])"

section \<open>Properties of the response envelope helpers\<close>

lemma show_nat_nonempty: "show_nat n \<noteq> []"
  by (subst show_nat.simps) simp

lemma show_int_nonempty: "show_int i \<noteq> []"
  by (simp add: show_int_def show_nat_nonempty)

lemma json_stringify_nonempty: "json_stringify v = Some s \<Longrightarrow> s \<noteq> []"
  by (cases v) (auto simp: show_int_nonempty json_quote_def dq_def split: if_splits)

lemma falsy_get_message: "\<not> truthy v \<Longrightarrow> get v ''message'' = JUndefined"
  by (cases v) auto

lemma getError_message:
  "truthy (opt_get (opt_get (res_data res) ''error'') ''message'') \<Longrightarrow>
   getError res = opt_get (opt_get (res_data res) ''error'') ''message''"
  by (simp add: getError_def opt_get_def split: if_splits)

lemma getError_error:
  "\<not> truthy (opt_get (opt_get (res_data res) ''error'') ''message'') \<Longrightarrow>
   truthy (opt_get (res_data res) ''error'') \<Longrightarrow>
   (case opt_get (res_data res) ''error'' of
      JStr s \<Rightarrow> getError res = JStr s
    | _ \<Rightarrow> (\<exists>s. json_stringify (opt_get (res_data res) ''error'') = Some s \<and> getError res = JStr s))"
  by (auto simp: getError_def opt_get_def split: if_splits jsval.splits)

lemma getError_body:
  "\<not> truthy (opt_get (res_data res) ''error'') \<Longrightarrow>
   (case res_data res of
      JStr s \<Rightarrow> getError res = JStr s
    | _ \<Rightarrow> getError res = JStr (''HTTP '' @ show_int (res_status res)))"
  by (auto simp: getError_def opt_get_def falsy_get_message split: jsval.splits)

lemma getError_nonempty:
  assumes "truthy (opt_get (opt_get (res_data res) ''error'') ''message'') \<longrightarrow>
           (\<exists>s. opt_get (opt_get (res_data res) ''error'') ''message'' = JStr s)"
    and "res_data res \<noteq> JStr []"
  shows "\<exists>s. getError res = JStr s \<and> s \<noteq> []"
proof (cases "truthy (opt_get (opt_get (res_data res) ''error'') ''message'')")
  case True
  with assms(1) obtain s where s: "opt_get (opt_get (res_data res) ''error'') ''message'' = JStr s"
    by blast
  with True have "s \<noteq> []" by simp
  with s getError_message[OF True] show ?thesis by simp
next
  case nomsg: False
  show ?thesis
  proof (cases "truthy (opt_get (res_data res) ''error'')")
    case True
    from getError_error[OF nomsg True] True show ?thesis
      by (cases "opt_get (res_data res) ''error''")
        (auto simp: show_int_nonempty dest: json_stringify_nonempty)
  next
    case False
    from getError_body[OF False] assms(2) show ?thesis
      by (cases "res_data res") (auto simp: show_int_nonempty)
  qed
qed

text \<open>
  C4, as the source has it.  With \<open>body\<close> the parsed body, \<open>err\<close> its \<^verbatim>\<open>error\<close> and \<open>msg\<close>
  the \<^verbatim>\<open>message\<close> of that: \<^verbatim>\<open>getError\<close> returns \<open>msg\<close> when it is truthy; else, when
  \<open>err\<close> is truthy, \<open>err\<close> itself if it is a string and its JSON text otherwise; else the
  body when the body is a string; else \<^verbatim>\<open>HTTP <status>\<close>.  The result is a non-empty
  string whenever \<open>msg\<close>, if truthy, is a string and the body is not the empty string.
\<close>

theorem getError_fallback_order:
  "(let body = res_data res;
        err = opt_get body ''error'';
        msg = opt_get err ''message'';
        out = getError res
    in (truthy msg \<longrightarrow> out = msg)
     \<and> (\<not> truthy msg \<and> truthy err \<longrightarrow>
          (case err of
             JStr s \<Rightarrow> out = JStr s
           | _ \<Rightarrow> (\<exists>s. json_stringify err = Some s \<and> out = JStr s)))
     \<and> (\<not> truthy err \<longrightarrow>
          (case body of
             JStr s \<Rightarrow> out = JStr s
           | _ \<Rightarrow> out = JStr (''HTTP '' @ show_int (res_status res))))
     \<and> ((truthy msg \<longrightarrow> (\<exists>s. msg = JStr s)) \<and> body \<noteq> JStr [] \<longrightarrow>
          (\<exists>s. out = JStr s \<and> s \<noteq> [])))"
  unfolding Let_def
  using getError_message[of res] getError_error[of res] getError_body[of res]
    getError_nonempty[of res]
  by blast

theorem getError_fallback_order_witness:
  "getError \<lparr>res_status = 500,
             res_data = JObj [(''error'', JObj [(''message'', JStr ''boom'')])],
             res_raw = []\<rparr> = JStr ''boom''
   \<and> getError \<lparr>res_status = 500, res_data = JObj [(''error'', JStr ''bad'')],
               res_raw = []\<rparr> = JStr ''bad''
   \<and> getError \<lparr>res_status = 404, res_data = JStr ''Not Found'', res_raw = ''Not Found''\<rparr>
       = JStr ''Not Found''
   \<and> getError \<lparr>res_status = 503, res_data = JNull, res_raw = ''null''\<rparr>
       = JStr (''HTTP '' @ show_int 503)"
  using getError_fallback_order
          [of "\<lparr>res_status = 500,
                 res_data = JObj [(''error'', JObj [(''message'', JStr ''boom'')])],
                 res_raw = []\<rparr>"]
        getError_fallback_order
          [of "\<lparr>res_status = 500, res_data = JObj [(''error'', JStr ''bad'')], res_raw = []\<rparr>"]
        getError_fallback_order
          [of "\<lparr>res_status = 404, res_data = JStr ''Not Found'', res_raw = ''Not Found''\<rparr>"]
        getError_fallback_order
          [of "\<lparr>res_status = 503, res_data = JNull, res_raw = ''null''\<rparr>"]
  by (simp add: Let_def opt_get_def)

text \<open>
  C4 as stated fails: an error response with an empty body (which is not JSON, so the
  parsed body is the empty string) gives the empty message; and a message that is present
  but empty is passed over for the JSON text of the error object.
\<close>

theorem getError_empty_body_counterexample:
  "getError \<lparr>res_status = 502, res_data = JStr [], res_raw = []\<rparr> = JStr []
   \<and> getError \<lparr>res_status = 500,
                res_data = JObj [(''error'', JObj [(''message'', JStr [])])],
                res_raw = []\<rparr>
       = JStr (''{'' @ dq @ ''message'' @ dq @ '':'' @ dq @ dq @ ''}'')"
  by code_simp

section \<open>Properties of the slug\<close>















section \<open>Properties of the search handler's rendering\<close>

lemma search_content_string:
  "get r ''content'' = JStr s \<Longrightarrow>
   search_content r = Inr (JStr (if 200 < length s then take 200 s @ ''...'' else s))"
  by (auto simp: search_content_def Let_def)

lemma get_not_nullish: "get r k = JStr s \<Longrightarrow> \<not> nullish r"
  by (cases r) auto

text \<open>
  C8.  When the content of a search result is a string, the rendered content is its first
  200 characters followed by \<^verbatim>\<open>...\<close> if it is longer than 200 characters, and the
  string itself, unchanged, if it has 200 characters or fewer; the summary line of the
  result ends with a line break, three spaces and that rendered content.
\<close>

theorem search_content_truncated_at_200:
  assumes "get r ''content'' = JStr s"
  shows "search_content r = Inr (JStr (if 200 < length s then take 200 s @ ''...'' else s))
       \<and> search_item i r =
           bind_err (search_heading i r) (\<lambda>h.
             Inr (h @ nl @ ''   '' @ (if 200 < length s then take 200 s @ ''...'' else s)))"
proof -
  have nn: "\<not> nullish r"
    using assms by (rule get_not_nullish)
  have sc: "search_content r = Inr (JStr (if 200 < length s then take 200 s @ ''...'' else s))"
    using assms by (rule search_content_string)
  have "search_item i r =
          bind_err (search_heading i r) (\<lambda>h.
             Inr (h @ nl @ ''   '' @ (if 200 < length s then take 200 s @ ''...'' else s)))"
    unfolding search_item_def using nn sc
    by (cases "search_heading i r") simp_all
  with sc show ?thesis by simp
qed

theorem search_content_truncated_at_200_witness:
  "search_content (JObj [(''title'', JStr ''T''), (''content'', JStr (replicate 201 CHR ''x''))])
     = Inr (JStr (replicate 200 CHR ''x'' @ ''...''))
   \<and> search_content (JObj [(''title'', JStr ''T''), (''content'', JStr (replicate 200 CHR ''x''))])
     = Inr (JStr (replicate 200 CHR ''x''))"
  using search_content_truncated_at_200
          [of "JObj [(''title'', JStr ''T''), (''content'', JStr (replicate 201 CHR ''x''))]"
              "replicate 201 CHR ''x''" 0]
        search_content_truncated_at_200
          [of "JObj [(''title'', JStr ''T''), (''content'', JStr (replicate 200 CHR ''x''))]"
              "replicate 200 CHR ''x''" 0]
  by simp

section \<open>Properties of the handlers and of the dispatcher\<close>

subsection \<open>Failure on a result that is not a success\<close>

lemma await_request:
  "await (request tr m p b q) k =
     (let c = \<lparr>call_method = m, call_path = p,
                call_body = (if b = JUndefined then JNull else b),
                call_query = (if q = JUndefined then JNull else q)\<rparr>
      in (case tr c of Inl e \<Rightarrow> Inl e | Inr res \<Rightarrow> k res, [c]))"
  by (simp add: await_def request_def Let_def split: sum.splits)

lemma await_request_result:
  assumes "await (request tr m p b q) k = (out, [c])" and "tr c = Inr res"
  shows "out = k res"
  using assms by (auto simp: await_request Let_def)

lemma fail_with_Inl: "\<exists>e. fail_with p res = (Inl e :: error + 'a)"
  by (cases "to_string (getError res)") (simp_all add: fail_with_def)

lemma fail_with_message:
  "to_string (getError res) = Inr m \<Longrightarrow> fail_with p res = Inl (Error (p @ m))"
  by (simp add: fail_with_def)

lemma knowledge_search_handler_fail:
  assumes "knowledge_search_handler tr v = (out, [c])" and "tr c = Inr res" and "\<not> isOk res"
  shows "out = fail_with ''Search failed: '' res"
proof -
  from assms(1) have "out = knowledge_search_result (get v ''query'') res"
    using assms(2)
    by (auto simp: knowledge_search_handler_def searchKnowledge_def api_post_def Let_def
          split: if_splits dest: await_request_result)
  with assms(3) show ?thesis
    by (simp add: knowledge_search_result_def)
qed

lemma knowledge_add_handler_fail:
  assumes "knowledge_add_handler tr v = (out, [c])" and "tr c = Inr res" and "\<not> isOk res"
  shows "out = fail_with ''Failed to create entry: '' res"
proof -
  from assms(1) obtain t where "out = knowledge_add_result t res"
    using assms(2)
    by (auto simp: knowledge_add_handler_def createKnowledgeEntry_def api_post_def Let_def
          split: if_splits jsval.splits sum.splits dest: await_request_result)
  with assms(3) show ?thesis
    by (simp add: knowledge_add_result_def)
qed

lemma knowledge_list_handler_fail:
  assumes "knowledge_list_handler tr v = (out, [c])" and "tr c = Inr res" and "\<not> isOk res"
  shows "out = fail_with ''Failed to list entries: '' res"
proof -
  from assms(1) have "out = knowledge_list_result res"
    using assms(2)
    by (auto simp: knowledge_list_handler_def listKnowledgeEntries_def api_get_def
          dest: await_request_result)
  with assms(3) show ?thesis
    by (simp add: knowledge_list_result_def)
qed

lemma approval_request_handler_fail:
  assumes "approval_request_handler tr v = (out, [c])" and "tr c = Inr res" and "\<not> isOk res"
  shows "out = fail_with ''Failed to submit approval: '' res"
proof -
  from assms(1) have "out = approval_request_result (get v ''title'') res"
    using assms(2)
    by (auto simp: approval_request_handler_def submitApproval_def api_post_def Let_def
          split: if_splits dest: await_request_result)
  with assms(3) show ?thesis
    by (simp add: approval_request_result_def)
qed

lemma await_rejected: "await (Inl e, cs) k = (Inl e, cs)"
  by (simp add: await_def)

lemma approval_check_handler_result:
  assumes "approval_check_handler tr v = (out, [c])" and "tr c = Inr res"
  shows "out = approval_check_result (get v ''id'') res"
  using assms
  by (auto simp: approval_check_handler_def getApproval_def api_get_def Let_def await_rejected
        split: if_splits sum.splits dest: await_request_result)

lemma approvals_list_handler_fail:
  assumes "approvals_list_handler tr v = (out, [c])" and "tr c = Inr res" and "\<not> isOk res"
  shows "out = fail_with ''Failed to list approvals: '' res"
proof -
  from assms(1) have "out = approvals_list_result (get v ''status'') res"
    using assms(2)
    by (auto simp: approvals_list_handler_def listApprovals_def api_get_def Let_def
          split: if_splits dest: await_request_result)
  with assms(3) show ?thesis
    by (simp add: approvals_list_result_def)
qed

lemma request_create_handler_fail:
  assumes "request_create_handler tr v = (out, [c])" and "tr c = Inr res" and "\<not> isOk res"
  shows "out = fail_with ''Failed to create request: '' res"
proof -
  from assms(1) obtain t p where "out = request_create_result t p res"
    using assms(2)
    by (auto simp: request_create_handler_def createRequest_def api_post_def Let_def
          split: if_splits dest: await_request_result)
  with assms(3) show ?thesis
    by (simp add: request_create_result_def)
qed

lemma requests_list_handler_fail:
  assumes "requests_list_handler tr v = (out, [c])" and "tr c = Inr res" and "\<not> isOk res"
  shows "out = fail_with ''Failed to list requests: '' res"
proof -
  from assms(1) have "out = requests_list_result (get v ''status'') res"
    using assms(2)
    by (auto simp: requests_list_handler_def listRequests_def api_get_def Let_def
          split: if_splits dest: await_request_result)
  with assms(3) show ?thesis
    by (simp add: requests_list_result_def)
qed

lemma executeTool_reaches_handler:
  assumes "executeTool tr name args = (out, c # cs)"
  shows "\<exists>t v. (name, t) \<in> set tools
             \<and> zobject_parse (inputSchema t) (js_or args (JObj [])) = Inr v
             \<and> handler t tr v = (out, c # cs)"
  using assms
  by (auto simp: executeTool_def tools_get_def
        split: option.splits property.splits sum.splits jsval.splits if_splits
        dest: map_of_SomeD)

lemma zobject_parse_id:
  "zobject_parse [(''id'', ZString)] (js_or args (JObj [])) = Inr v \<Longrightarrow>
   \<exists>s. get args ''id'' = JStr s \<and> get v ''id'' = JStr s"
  by (auto simp: zobject_parse_def js_or_def split: jsval.splits if_splits sum.splits)

text \<open>
  C3, as the source has it.  When the call a tool makes gets a result whose status is
  outside 200 to 299, the tool fails and never returns a result.  The approval check at
  status 404 fails with \<^verbatim>\<open>Approval not found: <id>\<close>; in every other case, when the
  message extracted by \<^verbatim>\<open>getError\<close> converts to the string \<open>m\<close>, the error message is the
  tool's prefix followed by \<open>m\<close>.
\<close>

theorem non_success_result_fails:
  assumes "executeTool tr name args = (out, [c])" and "tr c = Inr res" and "\<not> isOk res"
  shows "(\<exists>e. out = Inl e)
       \<and> (name = ''beeboo_approval_check'' \<and> res_status res = 404 \<longrightarrow>
            (\<exists>ident. get args ''id'' = JStr ident
                    \<and> out = Inl (Error (''Approval not found: '' @ ident))))
       \<and> (\<not> (name = ''beeboo_approval_check'' \<and> res_status res = 404) \<longrightarrow>
            (\<forall>m. to_string (getError res) = Inr m \<longrightarrow>
               (\<exists>prefix. (name, prefix) \<in> set
                    [(''beeboo_knowledge_search'', ''Search failed: ''),
                     (''beeboo_knowledge_add'', ''Failed to create entry: ''),
                     (''beeboo_knowledge_list'', ''Failed to list entries: ''),
                     (''beeboo_approval_request'', ''Failed to submit approval: ''),
                     (''beeboo_approval_check'', ''Failed to check approval: ''),
                     (''beeboo_approvals_list'', ''Failed to list approvals: ''),
                     (''beeboo_request_create'', ''Failed to create request: ''),
                     (''beeboo_requests_list'', ''Failed to list requests: '')]
                  \<and> out = Inl (Error (prefix @ m)))))"
proof -
  from executeTool_reaches_handler[OF assms(1)] obtain t v
    where t: "(name, t) \<in> set tools"
      and v: "zobject_parse (inputSchema t) (js_or args (JObj [])) = Inr v"
      and h: "handler t tr v = (out, [c])"
    by blast
  from t consider
      (search) "name = ''beeboo_knowledge_search''" "handler t = knowledge_search_handler"
    | (add) "name = ''beeboo_knowledge_add''" "handler t = knowledge_add_handler"
    | (list) "name = ''beeboo_knowledge_list''" "handler t = knowledge_list_handler"
    | (request) "name = ''beeboo_approval_request''" "handler t = approval_request_handler"
    | (check) "name = ''beeboo_approval_check''" "handler t = approval_check_handler"
        "inputSchema t = [(''id'', ZString)]"
    | (approvals) "name = ''beeboo_approvals_list''" "handler t = approvals_list_handler"
    | (create) "name = ''beeboo_request_create''" "handler t = request_create_handler"
    | (requests) "name = ''beeboo_requests_list''" "handler t = requests_list_handler"
    by (auto simp: tools_def)
  then show ?thesis
  proof cases
    case search
    with h have "out = fail_with ''Search failed: '' res"
      using knowledge_search_handler_fail assms(2,3) by simp
    with search(1) show ?thesis
      using fail_with_Inl[of "''Search failed: ''" res] by (auto simp: fail_with_message)
  next
    case add
    with h have "out = fail_with ''Failed to create entry: '' res"
      using knowledge_add_handler_fail assms(2,3) by simp
    with add(1) show ?thesis
      using fail_with_Inl[of "''Failed to create entry: ''" res] by (auto simp: fail_with_message)
  next
    case list
    with h have "out = fail_with ''Failed to list entries: '' res"
      using knowledge_list_handler_fail assms(2,3) by simp
    with list(1) show ?thesis
      using fail_with_Inl[of "''Failed to list entries: ''" res] by (auto simp: fail_with_message)
  next
    case request
    with h have "out = fail_with ''Failed to submit approval: '' res"
      using approval_request_handler_fail assms(2,3) by simp
    with request(1) show ?thesis
      using fail_with_Inl[of "''Failed to submit approval: ''" res]
      by (auto simp: fail_with_message)
  next
    case check
    from v check(3) obtain s where s: "get args ''id'' = JStr s" "get v ''id'' = JStr s"
      using zobject_parse_id by force
    from h check(2) have out: "out = approval_check_result (JStr s) res"
      using approval_check_handler_result[of tr v out c res] assms(2) s(2) by simp
    show ?thesis
    proof (cases "res_status res = 404")
      case True
      with out assms(3) have "out = Inl (Error (''Approval not found: '' @ s))"
        by (simp add: approval_check_result_def)
      with True s(1) check(1) show ?thesis by simp
    next
      case False
      with out assms(3) have "out = fail_with ''Failed to check approval: '' res"
        by (simp add: approval_check_result_def)
      with False check(1) show ?thesis
        using fail_with_Inl[of "''Failed to check approval: ''" res]
        by (auto simp: fail_with_message)
    qed
  next
    case approvals
    with h have "out = fail_with ''Failed to list approvals: '' res"
      using approvals_list_handler_fail assms(2,3) by simp
    with approvals(1) show ?thesis
      using fail_with_Inl[of "''Failed to list approvals: ''" res]
      by (auto simp: fail_with_message)
  next
    case create
    with h have "out = fail_with ''Failed to create request: '' res"
      using request_create_handler_fail assms(2,3) by simp
    with create(1) show ?thesis
      using fail_with_Inl[of "''Failed to create request: ''" res]
      by (auto simp: fail_with_message)
  next
    case requests
    with h have "out = fail_with ''Failed to list requests: '' res"
      using requests_list_handler_fail assms(2,3) by simp
    with requests(1) show ?thesis
      using fail_with_Inl[of "''Failed to list requests: ''" res]
      by (auto simp: fail_with_message)
  qed
qed

theorem non_success_result_fails_witness:
  "executeTool
     (answering \<lparr>res_status = 500,
                  res_data = JObj [(''error'', JObj [(''message'', JStr ''boom'')])],
                  res_raw = []\<rparr>)
     ''beeboo_knowledge_search'' (JObj [(''query'', JStr ''deploy'')])
   = (Inl (Error ''Search failed: boom''),
      [\<lparr>call_method = ''POST'', call_path = ''/api/v1/knowledge/search'',
        call_body = JObj [(''query'', JStr ''deploy''), (''limit'', JNum 10)],
        call_query = JNull\<rparr>])
   \<and> \<not> isOk \<lparr>res_status = 500,
                res_data = JObj [(''error'', JObj [(''message'', JStr ''boom'')])],
                res_raw = []\<rparr>
   \<and> to_string (getError \<lparr>res_status = 500,
                res_data = JObj [(''error'', JObj [(''message'', JStr ''boom'')])],
                res_raw = []\<rparr>) = Inr ''boom''"
proof -
  have h1: "executeTool
     (answering \<lparr>res_status = 500,
                  res_data = JObj [(''error'', JObj [(''message'', JStr ''boom'')])],
                  res_raw = []\<rparr>)
     ''beeboo_knowledge_search'' (JObj [(''query'', JStr ''deploy'')])
   = (Inl (Error ''Search failed: boom''),
      [\<lparr>call_method = ''POST'', call_path = ''/api/v1/knowledge/search'',
        call_body = JObj [(''query'', JStr ''deploy''), (''limit'', JNum 10)],
        call_query = JNull\<rparr>])"
    by code_simp
  have h2: "answering \<lparr>res_status = 500,
                  res_data = JObj [(''error'', JObj [(''message'', JStr ''boom'')])],
                  res_raw = []\<rparr>
              \<lparr>call_method = ''POST'', call_path = ''/api/v1/knowledge/search'',
               call_body = JObj [(''query'', JStr ''deploy''), (''limit'', JNum 10)],
               call_query = JNull\<rparr>
            = Inr \<lparr>res_status = 500,
                  res_data = JObj [(''error'', JObj [(''message'', JStr ''boom'')])],
                  res_raw = []\<rparr>"
    by (simp add: answering_def)
  have h3: "\<not> isOk \<lparr>res_status = 500,
                res_data = JObj [(''error'', JObj [(''message'', JStr ''boom'')])],
                res_raw = []\<rparr>"
    by (simp add: isOk_def)
  have h4: "to_string (getError \<lparr>res_status = 500,
                res_data = JObj [(''error'', JObj [(''message'', JStr ''boom'')])],
                res_raw = []\<rparr>) = Inr ''boom''"
    by code_simp
  from non_success_result_fails[OF h1 h2 h3] h1 h3 h4 show ?thesis
    by simp
qed

text \<open>
  C3 as stated fails: at status 404 the message of the approval check does not contain
  the message extracted from the response; and an extracted message that does not convert
  to a string makes the handler fail with the runtime's TypeError instead.
\<close>

theorem not_found_message_counterexample:
  "fst (executeTool
          (answering \<lparr>res_status = 404,
                       res_data = JObj [(''error'', JObj [(''message'', JStr ''no such row'')])],
                       res_raw = []\<rparr>)
          ''beeboo_approval_check'' (JObj [(''id'', JStr ''abc123'')]))
     = Inl (Error ''Approval not found: abc123'')
   \<and> to_string (getError \<lparr>res_status = 404,
                       res_data = JObj [(''error'', JObj [(''message'', JStr ''no such row'')])],
                       res_raw = []\<rparr>) = Inr ''no such row''
   \<and> \<not> str_includes ''Approval not found: abc123'' ''no such row''
   \<and> fst (executeTool
          (answering \<lparr>res_status = 500,
                       res_data = JObj [(''error'',
                         JObj [(''message'', JObj [(''toString'', JNum 1)])])],
                       res_raw = []\<rparr>)
          ''beeboo_knowledge_search'' (JObj [(''query'', JStr ''deploy'')]))
     = Inl TypeError"
  by code_simp

subsection \<open>The list tools on a payload that is not an array\<close>

lemma tools_get_registered:
  "tools_get ''beeboo_knowledge_search'' = Own (snd (tools ! 0))"
  "tools_get ''beeboo_knowledge_add'' = Own (snd (tools ! 1))"
  "tools_get ''beeboo_knowledge_list'' = Own (snd (tools ! 2))"
  "tools_get ''beeboo_approval_request'' = Own (snd (tools ! 3))"
  "tools_get ''beeboo_approval_check'' = Own (snd (tools ! 4))"
  "tools_get ''beeboo_approvals_list'' = Own (snd (tools ! 5))"
  "tools_get ''beeboo_request_create'' = Own (snd (tools ! 6))"
  "tools_get ''beeboo_requests_list'' = Own (snd (tools ! 7))"
  by (simp_all add: tools_get_def tools_def)

lemma executeTool_knowledge_search:
  "executeTool tr ''beeboo_knowledge_search'' (JObj kvs) =
     (case own kvs ''query'' of
        JStr q \<Rightarrow>
          (let c = \<lparr>call_method = ''POST'', call_path = ''/api/v1/knowledge/search'',
                    call_body = JObj [(''query'', JStr q), (''limit'', JNum 10)],
                    call_query = JNull\<rparr>
           in (case tr c of Inl e \<Rightarrow> Inl e
                          | Inr res \<Rightarrow> knowledge_search_result (JStr q) res, [c]))
      | _ \<Rightarrow> (Inl (ZodError [Invalid_type [Key ''query'']]), []))"
  by (simp add: executeTool_def tools_get_registered tools_def js_or_def zobject_parse_def
        knowledge_search_handler_def searchKnowledge_def api_post_def await_request Let_def
        spread_def
      split: jsval.splits)

lemma executeTool_knowledge_list:
  "executeTool tr ''beeboo_knowledge_list'' (JObj kvs) =
     (let c = \<lparr>call_method = ''GET'', call_path = ''/api/v1/knowledge/entries'',
               call_body = JNull, call_query = JObj []\<rparr>
      in (case tr c of Inl e \<Rightarrow> Inl e | Inr res \<Rightarrow> knowledge_list_result res, [c]))"
  by (simp add: executeTool_def tools_get_registered tools_def js_or_def zobject_parse_def
        knowledge_list_handler_def listKnowledgeEntries_def api_get_def await_request Let_def)

lemma executeTool_approval_check:
  "executeTool tr ''beeboo_approval_check'' (JObj kvs) =
     (case own kvs ''id'' of
        JStr ident \<Rightarrow>
          (let c = \<lparr>call_method = ''GET'', call_path = ''/api/v1/approvals/'' @ ident,
                    call_body = JNull, call_query = JNull\<rparr>
           in (case tr c of Inl e \<Rightarrow> Inl e
                          | Inr res \<Rightarrow> approval_check_result (JStr ident) res, [c]))
      | _ \<Rightarrow> (Inl (ZodError [Invalid_type [Key ''id'']]), []))"
  by (simp add: executeTool_def tools_get_registered tools_def js_or_def zobject_parse_def
        approval_check_handler_def getApproval_def api_get_def await_request Let_def
      split: jsval.splits)

lemma executeTool_approvals_list:
  "executeTool tr ''beeboo_approvals_list'' (JObj kvs) =
     (case own kvs ''status'' of
        JUndefined \<Rightarrow>
          (let c = \<lparr>call_method = ''GET'', call_path = ''/api/v1/approvals'',
                    call_body = JNull, call_query = JObj []\<rparr>
           in (case tr c of Inl e \<Rightarrow> Inl e
                          | Inr res \<Rightarrow> approvals_list_result JUndefined res, [c]))
      | JStr st \<Rightarrow>
          (if st \<in> set [''pending'', ''approved'', ''rejected''] then
             (let c = \<lparr>call_method = ''GET'', call_path = ''/api/v1/approvals'',
                       call_body = JNull, call_query = JObj [(''status'', JStr st)]\<rparr>
              in (case tr c of Inl e \<Rightarrow> Inl e
                             | Inr res \<Rightarrow> approvals_list_result (JStr st) res, [c]))
           else (Inl (ZodError [Invalid_enum_value [Key ''status'']]), []))
      | _ \<Rightarrow> (Inl (ZodError [Invalid_type [Key ''status'']]), []))"
  by (auto simp: executeTool_def tools_get_registered tools_def js_or_def zobject_parse_def
        approvals_list_handler_def listApprovals_def api_get_def await_request Let_def
      split: jsval.splits)

lemma executeTool_requests_list:
  "executeTool tr ''beeboo_requests_list'' (JObj kvs) =
     (case own kvs ''status'' of
        JUndefined \<Rightarrow>
          (let c = \<lparr>call_method = ''GET'', call_path = ''/api/v1/requests'',
                    call_body = JNull, call_query = JObj []\<rparr>
           in (case tr c of Inl e \<Rightarrow> Inl e
                          | Inr res \<Rightarrow> requests_list_result JUndefined res, [c]))
      | JStr st \<Rightarrow>
          (if st \<in> set [''open'', ''in_progress'', ''resolved''] then
             (let c = \<lparr>call_method = ''GET'', call_path = ''/api/v1/requests'',
                       call_body = JNull, call_query = JObj [(''status'', JStr st)]\<rparr>
              in (case tr c of Inl e \<Rightarrow> Inl e
                             | Inr res \<Rightarrow> requests_list_result (JStr st) res, [c]))
           else (Inl (ZodError [Invalid_enum_value [Key ''status'']]), []))
      | _ \<Rightarrow> (Inl (ZodError [Invalid_type [Key ''status'']]), []))"
  by (auto simp: executeTool_def tools_get_registered tools_def js_or_def zobject_parse_def
        requests_list_handler_def listRequests_def api_get_def await_request Let_def
      split: jsval.splits)

lemma knowledge_list_result_no_array:
  assumes "isOk res" and "\<not> isArray (getData res) \<or> getData res = JArr []"
  shows "knowledge_list_result res =
           Inr \<lparr>result_text = ''No knowledge entries found.'', result_data = JArr []\<rparr>"
  using assms by (auto simp: knowledge_list_result_def Let_def)

lemma approvals_list_result_no_array:
  assumes "isOk res" and "\<not> isArray (getData res) \<or> getData res = JArr []"
  shows "approvals_list_result status res =
           bind_err (filterText status) (\<lambda>ft.
             Inr \<lparr>result_text = ''No approvals found'' @ ft @ ''.'', result_data = JArr []\<rparr>)"
  using assms by (auto simp: approvals_list_result_def Let_def)

lemma requests_list_result_no_array:
  assumes "isOk res" and "\<not> isArray (getData res) \<or> getData res = JArr []"
  shows "requests_list_result status res =
           bind_err (filterText status) (\<lambda>ft.
             Inr \<lparr>result_text = ''No work requests found'' @ ft @ ''.'', result_data = JArr []\<rparr>)"
  using assms by (auto simp: requests_list_result_def Let_def)

lemma filterText_absent: "filterText JUndefined = Inr []"
  by (simp add: filterText_def)

lemma filterText_given: "st \<noteq> [] \<Longrightarrow> filterText (JStr st) = Inr ('' with status '' @ dq @ st @ dq)"
  by (simp add: filterText_def)

text \<open>
  C10.  For each of the three list tools, a successful result whose payload is not an
  array is treated as the empty list is: the tool returns its "none found" text, which
  names the status filter when one is given, with the empty list as data.
\<close>

theorem list_tools_non_array_payload:
  assumes "isOk res" and "\<not> isArray (getData res) \<or> getData res = JArr []"
  shows
   "(tr \<lparr>call_method = ''GET'', call_path = ''/api/v1/knowledge/entries'',
          call_body = JNull, call_query = JObj []\<rparr> = Inr res \<longrightarrow>
       fst (executeTool tr ''beeboo_knowledge_list'' (JObj kvs)) =
         Inr \<lparr>result_text = ''No knowledge entries found.'', result_data = JArr []\<rparr>)
  \<and> (own kvs ''status'' = JUndefined
       \<and> tr \<lparr>call_method = ''GET'', call_path = ''/api/v1/approvals'',
              call_body = JNull, call_query = JObj []\<rparr> = Inr res \<longrightarrow>
       fst (executeTool tr ''beeboo_approvals_list'' (JObj kvs)) =
         Inr \<lparr>result_text = ''No approvals found.'', result_data = JArr []\<rparr>)
  \<and> (own kvs ''status'' = JStr st \<and> st \<in> set [''pending'', ''approved'', ''rejected'']
       \<and> tr \<lparr>call_method = ''GET'', call_path = ''/api/v1/approvals'',
              call_body = JNull, call_query = JObj [(''status'', JStr st)]\<rparr> = Inr res \<longrightarrow>
       fst (executeTool tr ''beeboo_approvals_list'' (JObj kvs)) =
         Inr \<lparr>result_text = ''No approvals found with status '' @ dq @ st @ dq @ ''.'',
              result_data = JArr []\<rparr>)
  \<and> (own kvs ''status'' = JUndefined
       \<and> tr \<lparr>call_method = ''GET'', call_path = ''/api/v1/requests'',
              call_body = JNull, call_query = JObj []\<rparr> = Inr res \<longrightarrow>
       fst (executeTool tr ''beeboo_requests_list'' (JObj kvs)) =
         Inr \<lparr>result_text = ''No work requests found.'', result_data = JArr []\<rparr>)
  \<and> (own kvs ''status'' = JStr st \<and> st \<in> set [''open'', ''in_progress'', ''resolved'']
       \<and> tr \<lparr>call_method = ''GET'', call_path = ''/api/v1/requests'',
              call_body = JNull, call_query = JObj [(''status'', JStr st)]\<rparr> = Inr res \<longrightarrow>
       fst (executeTool tr ''beeboo_requests_list'' (JObj kvs)) =
         Inr \<lparr>result_text = ''No work requests found with status '' @ dq @ st @ dq @ ''.'',
              result_data = JArr []\<rparr>)"
proof (intro conjI impI)
  assume "tr \<lparr>call_method = ''GET'', call_path = ''/api/v1/knowledge/entries'',
          call_body = JNull, call_query = JObj []\<rparr> = Inr res"
  then show "fst (executeTool tr ''beeboo_knowledge_list'' (JObj kvs)) =
         Inr \<lparr>result_text = ''No knowledge entries found.'', result_data = JArr []\<rparr>"
    by (simp add: executeTool_knowledge_list Let_def knowledge_list_result_no_array[OF assms])
next
  assume "own kvs ''status'' = JUndefined
       \<and> tr \<lparr>call_method = ''GET'', call_path = ''/api/v1/approvals'',
              call_body = JNull, call_query = JObj []\<rparr> = Inr res"
  then show "fst (executeTool tr ''beeboo_approvals_list'' (JObj kvs)) =
         Inr \<lparr>result_text = ''No approvals found.'', result_data = JArr []\<rparr>"
    by (simp add: executeTool_approvals_list Let_def approvals_list_result_no_array[OF assms]
          filterText_absent)
next
  assume a: "own kvs ''status'' = JStr st \<and> st \<in> set [''pending'', ''approved'', ''rejected'']
       \<and> tr \<lparr>call_method = ''GET'', call_path = ''/api/v1/approvals'',
              call_body = JNull, call_query = JObj [(''status'', JStr st)]\<rparr> = Inr res"
  then have "st \<noteq> []" by auto
  with a show "fst (executeTool tr ''beeboo_approvals_list'' (JObj kvs)) =
         Inr \<lparr>result_text = ''No approvals found with status '' @ dq @ st @ dq @ ''.'',
              result_data = JArr []\<rparr>"
    by (simp add: executeTool_approvals_list Let_def approvals_list_result_no_array[OF assms]
          filterText_given del: set_simps)
next
  assume "own kvs ''status'' = JUndefined
       \<and> tr \<lparr>call_method = ''GET'', call_path = ''/api/v1/requests'',
              call_body = JNull, call_query = JObj []\<rparr> = Inr res"
  then show "fst (executeTool tr ''beeboo_requests_list'' (JObj kvs)) =
         Inr \<lparr>result_text = ''No work requests found.'', result_data = JArr []\<rparr>"
    by (simp add: executeTool_requests_list Let_def requests_list_result_no_array[OF assms]
          filterText_absent)
next
  assume a: "own kvs ''status'' = JStr st \<and> st \<in> set [''open'', ''in_progress'', ''resolved'']
       \<and> tr \<lparr>call_method = ''GET'', call_path = ''/api/v1/requests'',
              call_body = JNull, call_query = JObj [(''status'', JStr st)]\<rparr> = Inr res"
  then have "st \<noteq> []" by auto
  with a show "fst (executeTool tr ''beeboo_requests_list'' (JObj kvs)) =
         Inr \<lparr>result_text = ''No work requests found with status '' @ dq @ st @ dq @ ''.'',
              result_data = JArr []\<rparr>"
    by (simp add: executeTool_requests_list Let_def requests_list_result_no_array[OF assms]
          filterText_given del: set_simps)
qed

theorem list_tools_non_array_payload_witness:
  "fst (executeTool
          (answering \<lparr>res_status = 200, res_data = JObj [(''total'', JNum 0)], res_raw = []\<rparr>)
          ''beeboo_knowledge_list'' (JObj []))
     = Inr \<lparr>result_text = ''No knowledge entries found.'', result_data = JArr []\<rparr>
   \<and> fst (executeTool
          (answering \<lparr>res_status = 200, res_data = JObj [(''total'', JNum 0)], res_raw = []\<rparr>)
          ''beeboo_approvals_list'' (JObj [(''status'', JStr ''pending'')]))
     = Inr \<lparr>result_text = ''No approvals found with status '' @ dq @ ''pending'' @ dq @ ''.'',
            result_data = JArr []\<rparr>
   \<and> fst (executeTool
          (answering \<lparr>res_status = 200, res_data = JObj [(''total'', JNum 0)], res_raw = []\<rparr>)
          ''beeboo_requests_list'' (JObj [(''status'', JStr ''pending'')]))
     = Inl (ZodError [Invalid_enum_value [Key ''status'']])"
proof -
  let ?res = "\<lparr>res_status = 200, res_data = JObj [(''total'', JNum 0)], res_raw = []\<rparr>"
  have ok: "isOk ?res"
    by (simp add: isOk_def)
  have na: "\<not> isArray (getData ?res) \<or> getData ?res = JArr []"
    by (simp add: getData_def opt_get_def)
  have r: "fst (executeTool (answering ?res) ''beeboo_requests_list''
                  (JObj [(''status'', JStr ''pending'')]))
             = Inl (ZodError [Invalid_enum_value [Key ''status'']])"
    by code_simp
  from list_tools_non_array_payload[OF ok na, of "answering ?res" "[]" "''pending''"]
       list_tools_non_array_payload[OF ok na, of "answering ?res"
          "[(''status'', JStr ''pending'')]" "''pending''"]
       r
  show ?thesis
    by (simp add: answering_def)
qed

subsection \<open>The approval check on status 404\<close>

text \<open>
  C7.  When the backend answers the approval check for \<open>ident\<close> with status 404, the tool
  fails with the message \<^verbatim>\<open>Approval not found: <ident>\<close>; on any other status outside 200
  to 299 it fails with \<^verbatim>\<open>Failed to check approval: \<close> and the extracted message, and
  the two messages are never equal.
\<close>

theorem approval_check_not_found:
  assumes "own kvs ''id'' = JStr ident"
    and "tr \<lparr>call_method = ''GET'', call_path = ''/api/v1/approvals/'' @ ident,
             call_body = JNull, call_query = JNull\<rparr> = Inr res"
  shows "(res_status res = 404 \<longrightarrow>
            fst (executeTool tr ''beeboo_approval_check'' (JObj kvs)) =
              Inl (Error (''Approval not found: '' @ ident)))
       \<and> (\<not> isOk res \<and> res_status res \<noteq> 404 \<longrightarrow>
            (\<forall>m. to_string (getError res) = Inr m \<longrightarrow>
               fst (executeTool tr ''beeboo_approval_check'' (JObj kvs)) =
                 Inl (Error (''Failed to check approval: '' @ m))))
       \<and> (\<forall>m. ''Approval not found: '' @ ident \<noteq> ''Failed to check approval: '' @ m)"
  using assms
  by (auto simp: executeTool_approval_check Let_def approval_check_result_def isOk_def
        fail_with_def)

theorem approval_check_not_found_witness:
  "fst (executeTool
          (answering \<lparr>res_status = 404, res_data = JStr ''Not Found'', res_raw = ''Not Found''\<rparr>)
          ''beeboo_approval_check'' (JObj [(''id'', JStr ''abc123'')]))
     = Inl (Error ''Approval not found: abc123'')
   \<and> fst (executeTool
          (answering \<lparr>res_status = 500, res_data = JStr ''down'', res_raw = ''down''\<rparr>)
          ''beeboo_approval_check'' (JObj [(''id'', JStr ''abc123'')]))
     = Inl (Error ''Failed to check approval: down'')"
proof -
  have q: "own [(''id'', JStr ''abc123'')] ''id'' = JStr ''abc123''"
    by simp
  have m: "to_string (getError \<lparr>res_status = 500, res_data = JStr ''down'', res_raw = ''down''\<rparr>)
             = Inr ''down''"
    by code_simp
  from approval_check_not_found[of "[(''id'', JStr ''abc123'')]" "''abc123''"
         "answering \<lparr>res_status = 404, res_data = JStr ''Not Found'', res_raw = ''Not Found''\<rparr>"
         "\<lparr>res_status = 404, res_data = JStr ''Not Found'', res_raw = ''Not Found''\<rparr>", OF q]
       approval_check_not_found[of "[(''id'', JStr ''abc123'')]" "''abc123''"
         "answering \<lparr>res_status = 500, res_data = JStr ''down'', res_raw = ''down''\<rparr>"
         "\<lparr>res_status = 500, res_data = JStr ''down'', res_raw = ''down''\<rparr>", OF q]
       m
  show ?thesis
    by (simp add: answering_def isOk_def)
qed

subsection \<open>Missing required arguments\<close>

lemma zcollect_issue:
  "Inl is \<in> set rs \<Longrightarrow> is \<noteq> [] \<Longrightarrow> \<exists>js. js \<noteq> [] \<and> zcollect rs = Inl js"
  by (induction rs) (auto split: sum.splits)

lemma zobject_parse_missing:
  assumes "(k, ZString) \<in> set shape" and "own kvs k = JUndefined"
  shows "\<exists>is. is \<noteq> [] \<and> zobject_parse shape (JObj kvs) = Inl is"
proof -
  have "zparse [Key (fst (k, ZString))] (snd (k, ZString)) (own kvs (fst (k, ZString)))
          = Inl [Invalid_type [Key k]]"
    using assms(2) by simp
  then have "Inl [Invalid_type [Key k]]
               \<in> set (map (\<lambda>ks. zparse [Key (fst ks)] (snd ks) (own kvs (fst ks))) shape)"
    using assms(1) by (metis (no_types, lifting) image_eqI list.set_map)
  from zcollect_issue[OF this] obtain js
    where "js \<noteq> []"
      and "zcollect (map (\<lambda>ks. zparse [Key (fst ks)] (snd ks) (own kvs (fst ks))) shape) = Inl js"
    by auto
  then show ?thesis
    by (auto simp: zobject_parse_def)
qed

lemma executeTool_missing:
  assumes "tools_get name = Own t" and "(k, ZString) \<in> set (inputSchema t)"
    and "own kvs k = JUndefined"
  shows "\<exists>is. is \<noteq> [] \<and> executeTool tr name (JObj kvs) = (Inl (ZodError is), [])"
proof -
  from zobject_parse_missing[OF assms(2,3)] obtain "is"
    where "is \<noteq> []" and "zobject_parse (inputSchema t) (JObj kvs) = Inl is"
    by blast
  with assms(1) show ?thesis
    by (simp add: executeTool_def js_or_def)
qed


lemma required_arguments_eq:
  "required_arguments =
     [(''beeboo_knowledge_search'', ''query''),
      (''beeboo_knowledge_add'', ''title''),
      (''beeboo_knowledge_add'', ''content''),
      (''beeboo_approval_request'', ''title''),
      (''beeboo_approval_request'', ''description''),
      (''beeboo_approval_check'', ''id''),
      (''beeboo_request_create'', ''title'')]"
  by (simp add: required_arguments_def tools_def)










subsection \<open>The shape of a successful response\<close>

lemma executeTool_success_name:
  assumes "executeTool tr name args = (Inr r, calls)"
  shows "name = ''beeboo_knowledge_search'' \<or> name = ''beeboo_knowledge_add''
       \<or> name = ''beeboo_knowledge_list'' \<or> name = ''beeboo_approval_request''
       \<or> name = ''beeboo_approval_check'' \<or> name = ''beeboo_approvals_list''
       \<or> name = ''beeboo_request_create'' \<or> name = ''beeboo_requests_list''"
proof -
  from assms obtain t where "map_of tools name = Some t"
    by (auto simp: executeTool_def tools_get_def
          split: option.splits property.splits sum.splits jsval.splits if_splits)
  then have "(name, t) \<in> set tools"
    by (rule map_of_SomeD)
  then show ?thesis
    by (simp add: tools_def) (elim disjE conjE, simp_all)
qed

lemma repack_knowledge_search:
  "executeTool tr ''beeboo_knowledge_search'' (JObj [(''query'', own kvs ''query'')])
     = executeTool tr ''beeboo_knowledge_search'' (JObj kvs)"
  by (simp add: executeTool_def tools_get_registered tools_def zobject_parse_def js_or_def)

lemma repack_knowledge_add:
  "executeTool tr ''beeboo_knowledge_add''
     (JObj [(''title'', own kvs ''title''), (''content'', own kvs ''content''),
            (''tags'', own kvs ''tags'')])
     = executeTool tr ''beeboo_knowledge_add'' (JObj kvs)"
  by (simp add: executeTool_def tools_get_registered tools_def zobject_parse_def js_or_def)

lemma repack_knowledge_list:
  "executeTool tr ''beeboo_knowledge_list'' (JObj [])
     = executeTool tr ''beeboo_knowledge_list'' (JObj kvs)"
  by (simp add: executeTool_def tools_get_registered tools_def zobject_parse_def js_or_def)

lemma repack_approval_request:
  "executeTool tr ''beeboo_approval_request''
     (JObj [(''title'', own kvs ''title''), (''description'', own kvs ''description'')])
     = executeTool tr ''beeboo_approval_request'' (JObj kvs)"
  by (simp add: executeTool_def tools_get_registered tools_def zobject_parse_def js_or_def)

lemma repack_approval_check:
  "executeTool tr ''beeboo_approval_check'' (JObj [(''id'', own kvs ''id'')])
     = executeTool tr ''beeboo_approval_check'' (JObj kvs)"
  by (simp add: executeTool_def tools_get_registered tools_def zobject_parse_def js_or_def)

lemma repack_approvals_list:
  "executeTool tr ''beeboo_approvals_list'' (JObj [(''status'', own kvs ''status'')])
     = executeTool tr ''beeboo_approvals_list'' (JObj kvs)"
  by (simp add: executeTool_def tools_get_registered tools_def zobject_parse_def js_or_def)

lemma repack_request_create:
  "executeTool tr ''beeboo_request_create''
     (JObj [(''title'', own kvs ''title''), (''description'', own kvs ''description''),
            (''priority'', own kvs ''priority'')])
     = executeTool tr ''beeboo_request_create'' (JObj kvs)"
  by (simp add: executeTool_def tools_get_registered tools_def zobject_parse_def js_or_def)

lemma repack_requests_list:
  "executeTool tr ''beeboo_requests_list'' (JObj [(''status'', own kvs ''status'')])
     = executeTool tr ''beeboo_requests_list'' (JObj kvs)"
  by (simp add: executeTool_def tools_get_registered tools_def zobject_parse_def js_or_def)

text \<open>
  C1, as the source has it.  When the handler of a tool succeeds on an arguments object,
  the response that the registered callback of the tool returns on these arguments has the
  handler's text as its single text block and no error flag; its structured content is
  the handler's data under the key \<^verbatim>\<open>results\<close> for the search tool (omitted when the
  handler returns no data), under \<^verbatim>\<open>entries\<close>, \<^verbatim>\<open>approvals\<close> and \<^verbatim>\<open>requests\<close> for
  the three list tools, and the handler's data itself for the other four tools.
\<close>

theorem success_response_shape:
  assumes "executeTool tr name (JObj kvs) = (Inr r, calls)"
  shows "registered_callback tr lm name (JObj kvs) =
           Some (Inr \<lparr>content = [\<lparr>block_type = ''text'', block_text = result_text r\<rparr>],
                       structuredContent =
                         (if name = ''beeboo_knowledge_search''
                            then (if truthy (result_data r)
                                  then JObj [(''results'', result_data r)] else JUndefined)
                          else if name = ''beeboo_knowledge_list''
                            then JObj [(''entries'', result_data r)]
                          else if name = ''beeboo_approvals_list''
                            then JObj [(''approvals'', result_data r)]
                          else if name = ''beeboo_requests_list''
                            then JObj [(''requests'', result_data r)]
                          else result_data r),
                       isError = None\<rparr>, calls)"
  using executeTool_success_name[OF assms]
proof (elim disjE)
  assume n: "name = ''beeboo_knowledge_search''"
  with assms show ?thesis
    by (simp add: registered_callback_def registerTools_def knowledge_search_callback_def
          repack_knowledge_search del: own.simps)
next
  assume n: "name = ''beeboo_knowledge_add''"
  with assms show ?thesis
    by (simp add: registered_callback_def registerTools_def knowledge_add_callback_def
          repack_knowledge_add del: own.simps)
next
  assume n: "name = ''beeboo_knowledge_list''"
  with assms show ?thesis
    by (simp add: registered_callback_def registerTools_def knowledge_list_callback_def
          repack_knowledge_list[of tr kvs] del: own.simps)
next
  assume n: "name = ''beeboo_approval_request''"
  with assms show ?thesis
    by (simp add: registered_callback_def registerTools_def approval_request_callback_def
          repack_approval_request del: own.simps)
next
  assume n: "name = ''beeboo_approval_check''"
  with assms show ?thesis
    by (simp add: registered_callback_def registerTools_def approval_check_callback_def
          repack_approval_check del: own.simps)
next
  assume n: "name = ''beeboo_approvals_list''"
  with assms show ?thesis
    by (simp add: registered_callback_def registerTools_def approvals_list_callback_def
          repack_approvals_list del: own.simps)
next
  assume n: "name = ''beeboo_request_create''"
  with assms show ?thesis
    by (simp add: registered_callback_def registerTools_def request_create_callback_def
          repack_request_create del: own.simps)
next
  assume n: "name = ''beeboo_requests_list''"
  with assms show ?thesis
    by (simp add: registered_callback_def registerTools_def requests_list_callback_def
          repack_requests_list del: own.simps)
qed

theorem success_response_shape_witness:
  "executeTool
     (answering \<lparr>res_status = 200,
                  res_data = JArr [JObj [(''title'', JStr ''T''), (''content'', JStr ''hello'')]],
                  res_raw = []\<rparr>)
     ''beeboo_knowledge_search'' (JObj [(''query'', JStr ''deploy'')])
   = (Inr \<lparr>result_text = ''Found 1 result(s) for '' @ dq @ ''deploy'' @ dq @ '':'' @ nl @ nl
                            @ ''1. **T**'' @ nl @ ''   hello'',
            result_data = JArr [JObj [(''title'', JStr ''T''), (''content'', JStr ''hello'')]]\<rparr>,
      [\<lparr>call_method = ''POST'', call_path = ''/api/v1/knowledge/search'',
        call_body = JObj [(''query'', JStr ''deploy''), (''limit'', JNum 10)],
        call_query = JNull\<rparr>])
   \<and> registered_callback
     (answering \<lparr>res_status = 200,
                  res_data = JArr [JObj [(''title'', JStr ''T''), (''content'', JStr ''hello'')]],
                  res_raw = []\<rparr>)
     sample_text ''beeboo_knowledge_search'' (JObj [(''query'', JStr ''deploy'')])
   = Some (Inr \<lparr>content = [\<lparr>block_type = ''text'',
                  block_text = ''Found 1 result(s) for '' @ dq @ ''deploy'' @ dq @ '':'' @ nl @ nl
                            @ ''1. **T**'' @ nl @ ''   hello''\<rparr>],
            structuredContent = JObj [(''results'',
              JArr [JObj [(''title'', JStr ''T''), (''content'', JStr ''hello'')]])],
            isError = None\<rparr>,
      [\<lparr>call_method = ''POST'', call_path = ''/api/v1/knowledge/search'',
        call_body = JObj [(''query'', JStr ''deploy''), (''limit'', JNum 10)],
        call_query = JNull\<rparr>])"
proof -
  have h: "executeTool
     (answering \<lparr>res_status = 200,
                  res_data = JArr [JObj [(''title'', JStr ''T''), (''content'', JStr ''hello'')]],
                  res_raw = []\<rparr>)
     ''beeboo_knowledge_search'' (JObj [(''query'', JStr ''deploy'')])
   = (Inr \<lparr>result_text = ''Found 1 result(s) for '' @ dq @ ''deploy'' @ dq @ '':'' @ nl @ nl
                            @ ''1. **T**'' @ nl @ ''   hello'',
            result_data = JArr [JObj [(''title'', JStr ''T''), (''content'', JStr ''hello'')]]\<rparr>,
      [\<lparr>call_method = ''POST'', call_path = ''/api/v1/knowledge/search'',
        call_body = JObj [(''query'', JStr ''deploy''), (''limit'', JNum 10)],
        call_query = JNull\<rparr>])"
    by code_simp
  from success_response_shape[OF h, of sample_text] h show ?thesis
    by simp
qed

text \<open>
  C1 as stated fails: for the list tools and the search tool the structured content of
  the response that the registered callback returns is not the handler's data but an
  object holding it.
\<close>

theorem structured_content_wrapped_counterexample:
  "fst (executeTool (answering \<lparr>res_status = 200, res_data = JArr [], res_raw = ''[]''\<rparr>)
          ''beeboo_knowledge_list'' (JObj []))
     = Inr \<lparr>result_text = ''No knowledge entries found.'', result_data = JArr []\<rparr>
   \<and> map_option fst
        (registered_callback (answering \<lparr>res_status = 200, res_data = JArr [], res_raw = ''[]''\<rparr>)
           sample_text ''beeboo_knowledge_list'' (JObj []))
     = Some (Inr \<lparr>content = [\<lparr>block_type = ''text'',
                                block_text = ''No knowledge entries found.''\<rparr>],
                   structuredContent = JObj [(''entries'', JArr [])],
                   isError = None\<rparr>)
   \<and> JObj [(''entries'', JArr [])] \<noteq> JArr []
   \<and> fst (executeTool
          (answering \<lparr>res_status = 200, res_data = JArr [JObj [(''key'', JStr ''k'')]],
                       res_raw = []\<rparr>)
          ''beeboo_knowledge_search'' (JObj [(''query'', JStr ''deploy'')]))
     = Inr \<lparr>result_text = ''Found 1 result(s) for '' @ dq @ ''deploy'' @ dq @ '':'' @ nl @ nl
                             @ ''1. **k**'' @ nl @ ''   '',
            result_data = JArr [JObj [(''key'', JStr ''k'')]]\<rparr>
   \<and> map_option fst
        (registered_callback
           (answering \<lparr>res_status = 200, res_data = JArr [JObj [(''key'', JStr ''k'')]],
                        res_raw = []\<rparr>)
           sample_text ''beeboo_knowledge_search'' (JObj [(''query'', JStr ''deploy'')]))
     = Some (Inr \<lparr>content = [\<lparr>block_type = ''text'',
                     block_text = ''Found 1 result(s) for '' @ dq @ ''deploy'' @ dq @ '':''
                                  @ nl @ nl @ ''1. **k**'' @ nl @ ''   ''\<rparr>],
                   structuredContent = JObj [(''results'', JArr [JObj [(''key'', JStr ''k'')]])],
                   isError = None\<rparr>)"
  by code_simp

subsection \<open>Containment of strings\<close>

lemma str_includes_iff: "str_includes s sub \<longleftrightarrow> (\<exists>pre post. s = pre @ sub @ post)"
proof (induction s)
  case Nil
  show ?case by auto
next
  case (Cons c cs)
  show ?case
  proof
    assume "str_includes (c # cs) sub"
    then consider "take (length sub) (c # cs) = sub" | "str_includes cs sub" by auto
    then show "\<exists>pre post. c # cs = pre @ sub @ post"
    proof cases
      case 1
      then have "c # cs = [] @ sub @ drop (length sub) (c # cs)"
        by (metis append_Nil append_take_drop_id)
      then show ?thesis by blast
    next
      case 2
      with Cons obtain pre post where "cs = pre @ sub @ post" by blast
      then have "c # cs = (c # pre) @ sub @ post" by simp
      then show ?thesis by blast
    qed
  next
    assume "\<exists>pre post. c # cs = pre @ sub @ post"
    then obtain pre post where e: "c # cs = pre @ sub @ post" by blast
    show "str_includes (c # cs) sub"
    proof (cases pre)
      case Nil
      with e have "take (length sub) (c # cs) = sub" by simp
      then show ?thesis by simp
    next
      case (Cons p ps)
      with e have "cs = ps @ sub @ post" by simp
      with Cons.IH have "str_includes cs sub" by blast
      then show ?thesis by simp
    qed
  qed
qed

subsection \<open>Mapping over an array\<close>

lemma bind_err_Inr_iff:
  "bind_err m k = Inr y \<longleftrightarrow> (\<exists>x. m = Inr x \<and> k x = Inr y)"
  by (cases m) auto

lemma all_less_Suc_split: "(\<forall>i<Suc n. P i) \<longleftrightarrow> P 0 \<and> (\<forall>i<n. P (Suc i))"
  by (auto simp: less_Suc_eq_0_disj)

lemma those_err_enumerate:
  "those_err (map (\<lambda>ix. f (fst ix) (snd ix)) (enumerate k rs)) = Inr lines
   \<longleftrightarrow> length lines = length rs \<and> (\<forall>i<length rs. f (k + i) (rs ! i) = Inr (lines ! i))"
proof (induction rs arbitrary: k lines)
  case Nil
  show ?case by auto
next
  case (Cons r rs)
  show ?case
  proof (cases lines)
    case Nil
    then show ?thesis
      by (auto simp: bind_err_Inr_iff)
  next
    case (Cons l ls)
    then show ?thesis
      using Cons.IH[of "Suc k" ls]
      by (auto simp: bind_err_Inr_iff all_less_Suc_split)
  qed
qed

lemma js_map_array:
  "js_map f (JArr rs) = Inr lines
   \<longleftrightarrow> length lines = length rs \<and> (\<forall>i<length rs. f i (rs ! i) = Inr (lines ! i))"
  using those_err_enumerate[of f 0 rs lines] by (simp add: enumerate_eq_zip)

lemma show_int_nat: "show_int (int n) = show_nat n"
  by (simp add: show_int_def)

lemma search_result_zero:
  assumes "isOk res"
    and "(if isArray (getData res) then getData res
          else js_or (opt_get (getData res) ''results'') (JArr [])) = JArr []"
  shows "knowledge_search_result (JStr q) res =
           Inr \<lparr>result_text = ''No results found for '' @ dq @ q @ dq,
                result_data = JUndefined\<rparr>"
  using assms by (simp add: knowledge_search_result_def Let_def)

lemma search_result_some:
  assumes "isOk res"
    and "(if isArray (getData res) then getData res
          else js_or (opt_get (getData res) ''results'') (JArr [])) = JArr rs"
    and "rs \<noteq> []"
    and "js_map search_item (JArr rs) = Inr lines"
  shows "knowledge_search_result (JStr q) res =
           Inr \<lparr>result_text = ''Found '' @ show_nat (length rs) @ '' result(s) for ''
                                @ dq @ q @ dq @ '':'' @ nl @ nl @ join (nl @ nl) lines,
                result_data = JArr rs\<rparr>"
  using assms by (simp add: knowledge_search_result_def Let_def show_int_nat)

lemma search_result_failing_item:
  assumes "isOk res"
    and "(if isArray (getData res) then getData res
          else js_or (opt_get (getData res) ''results'') (JArr [])) = JArr rs"
    and "rs \<noteq> []"
    and "js_map search_item (JArr rs) = Inl e"
  shows "knowledge_search_result (JStr q) res = Inl e"
  using assms by (simp add: knowledge_search_result_def Let_def)

subsection \<open>Calls without arguments\<close>

lemma ex_either: "\<exists>k. k = a \<or> k = b"
  by blast

lemma required_in_schema:
  assumes "name \<in> set (map fst required_arguments)"
  shows "\<exists>t key. tools_get name = Own t \<and> (key, ZString) \<in> set (inputSchema t)"
proof -
  from assms have
    "name = ''beeboo_knowledge_search'' \<or> name = ''beeboo_knowledge_add''
     \<or> name = ''beeboo_approval_request'' \<or> name = ''beeboo_approval_check''
     \<or> name = ''beeboo_request_create''"
    by (auto simp: required_arguments_eq)
  then show ?thesis
    by (elim disjE) (simp_all add: tools_get_registered tools_def ex_either)
qed

text \<open>
  C9.  \<^verbatim>\<open>executeTool\<close> with \<^verbatim>\<open>null\<close> or \<^verbatim>\<open>undefined\<close> for the arguments behaves as with
  the empty object, for every name: the three tools without required fields run their
  handler (one call of the transport), and every tool with a required field fails with a
  validation error without reaching the transport.
\<close>

theorem executeTool_without_arguments:
  assumes "args = JNull \<or> args = JUndefined"
  shows "executeTool tr name args = executeTool tr name (JObj [])
       \<and> executeTool tr ''beeboo_knowledge_list'' args = knowledge_list_handler tr (JObj [])
       \<and> executeTool tr ''beeboo_approvals_list'' args
            = approvals_list_handler tr (JObj [(''status'', JUndefined)])
       \<and> executeTool tr ''beeboo_requests_list'' args
            = requests_list_handler tr (JObj [(''status'', JUndefined)])
       \<and> (name \<in> set [''beeboo_knowledge_list'', ''beeboo_approvals_list'',
                        ''beeboo_requests_list''] \<longrightarrow>
            length (snd (executeTool tr name args)) = 1)
       \<and> (name \<in> set (map fst required_arguments) \<longrightarrow>
            (\<exists>issues. issues \<noteq> [] \<and> executeTool tr name args = (Inl (ZodError issues), [])))"
proof -
  have same: "executeTool tr n args = executeTool tr n (JObj [])" for n
    using assms by (auto simp: executeTool_def js_or_def split: property.splits)
  have l1: "executeTool tr ''beeboo_knowledge_list'' (JObj [])
              = knowledge_list_handler tr (JObj [])"
    by (simp add: executeTool_def tools_get_registered tools_def zobject_parse_def js_or_def)
  have l2: "executeTool tr ''beeboo_approvals_list'' (JObj [])
              = approvals_list_handler tr (JObj [(''status'', JUndefined)])"
    by (simp add: executeTool_def tools_get_registered tools_def zobject_parse_def js_or_def)
  have l3: "executeTool tr ''beeboo_requests_list'' (JObj [])
              = requests_list_handler tr (JObj [(''status'', JUndefined)])"
    by (simp add: executeTool_def tools_get_registered tools_def zobject_parse_def js_or_def)
  have once: "length (snd (executeTool tr name args)) = 1"
    if "name \<in> set [''beeboo_knowledge_list'', ''beeboo_approvals_list'',
                      ''beeboo_requests_list'']"
  proof -
    from that have "name = ''beeboo_knowledge_list'' \<or> name = ''beeboo_approvals_list''
                    \<or> name = ''beeboo_requests_list''"
      by simp
    then show ?thesis
      unfolding same[of name]
      by (elim disjE)
        (simp_all add: executeTool_knowledge_list executeTool_approvals_list
           executeTool_requests_list Let_def)
  qed
  have invalid: "\<exists>issues. issues \<noteq> [] \<and> executeTool tr name args = (Inl (ZodError issues), [])"
    if "name \<in> set (map fst required_arguments)"
  proof -
    from required_in_schema[OF that] obtain t key
      where "tools_get name = Own t" and "(key, ZString) \<in> set (inputSchema t)"
      by blast
    from executeTool_missing[OF this, of "[]" tr] show ?thesis
      unfolding same[of name] by simp
  qed
  from same l1 l2 l3 once invalid show ?thesis
    by simp
qed

theorem executeTool_without_arguments_witness:
  "executeTool (answering \<lparr>res_status = 200, res_data = JArr [], res_raw = ''[]''\<rparr>)
     ''beeboo_approval_check'' JNull
     = (Inl (ZodError [Invalid_type [Key ''id'']]), [])
   \<and> executeTool (answering \<lparr>res_status = 200, res_data = JArr [], res_raw = ''[]''\<rparr>)
       ''beeboo_approvals_list'' JUndefined
     = (Inr \<lparr>result_text = ''No approvals found.'', result_data = JArr []\<rparr>,
        [\<lparr>call_method = ''GET'', call_path = ''/api/v1/approvals'',
          call_body = JNull, call_query = JObj []\<rparr>])"
proof -
  let ?tr = "answering \<lparr>res_status = 200, res_data = JArr [], res_raw = ''[]''\<rparr>"
  have e1: "executeTool ?tr ''beeboo_approval_check'' (JObj [])
              = (Inl (ZodError [Invalid_type [Key ''id'']]), [])"
    by code_simp
  have e2: "approvals_list_handler ?tr (JObj [(''status'', JUndefined)])
     = (Inr \<lparr>result_text = ''No approvals found.'', result_data = JArr []\<rparr>,
        [\<lparr>call_method = ''GET'', call_path = ''/api/v1/approvals'',
          call_body = JNull, call_query = JObj []\<rparr>])"
    by code_simp
  have a1: "JNull = JNull \<or> JNull = JUndefined"
    and a2: "JUndefined = JNull \<or> JUndefined = JUndefined"
    by simp_all
  from executeTool_without_arguments[OF a1, of ?tr "''beeboo_approval_check''"]
  have "executeTool ?tr ''beeboo_approval_check'' JNull
          = executeTool ?tr ''beeboo_approval_check'' (JObj [])"
    by (rule conjunct1)
  with e1 have c1: "executeTool ?tr ''beeboo_approval_check'' JNull
                      = (Inl (ZodError [Invalid_type [Key ''id'']]), [])"
    by simp
  from executeTool_without_arguments[OF a2, of ?tr "''beeboo_approvals_list''"]
  have "executeTool ?tr ''beeboo_approvals_list'' JUndefined
          = approvals_list_handler ?tr (JObj [(''status'', JUndefined)])"
    by (elim conjE)
  with e2 have c2: "executeTool ?tr ''beeboo_approvals_list'' JUndefined
     = (Inr \<lparr>result_text = ''No approvals found.'', result_data = JArr []\<rparr>,
        [\<lparr>call_method = ''GET'', call_path = ''/api/v1/approvals'',
          call_body = JNull, call_query = JObj []\<rparr>])"
    by simp
  from c1 c2 show ?thesis
    by (rule conjI)
qed

subsection \<open>Search results\<close>

lemma js_or_plain:
  "a = JUndefined \<or> (\<exists>s. a = JStr s) \<Longrightarrow> b = JUndefined \<or> (\<exists>s. b = JStr s) \<Longrightarrow>
   js_or a b = JUndefined \<or> (\<exists>s. js_or a b = JStr s)"
  by (auto simp: js_or_def)

lemma js_or_string:
  "a = JUndefined \<or> (\<exists>s. a = JStr s) \<Longrightarrow> \<exists>s. js_or a (JStr b) = JStr s"
  by (auto simp: js_or_def)

lemma optional_id_renders:
  "a = JUndefined \<or> (\<exists>s. a = JStr s) \<Longrightarrow>
   \<exists>ident. (if truthy a then bind_err (to_string a) (\<lambda>s. Inr ('' ('' @ s @ '')''))
            else Inr []) = Inr ident"
  by auto

lemma search_item_plain:
  assumes "\<not> nullish r"
    and "\<forall>k \<in> set [''title'', ''key'', ''id'', ''content''].
           get r k = JUndefined \<or> (\<exists>s. get r k = JStr s)"
  shows "\<exists>line. search_item i r = Inr line"
proof -
  from assms(2) have t: "get r ''title'' = JUndefined \<or> (\<exists>s. get r ''title'' = JStr s)"
    and k: "get r ''key'' = JUndefined \<or> (\<exists>s. get r ''key'' = JStr s)"
    and d: "get r ''id'' = JUndefined \<or> (\<exists>s. get r ''id'' = JStr s)"
    and c: "get r ''content'' = JUndefined \<or> (\<exists>s. get r ''content'' = JStr s)"
    by simp_all
  have "\<exists>cs. search_content r = Inr (JStr cs)"
  proof (cases "get r ''content'' = JUndefined")
    case True
    then show ?thesis
      by (simp add: search_content_def)
  next
    case False
    with c obtain s where "get r ''content'' = JStr s"
      by auto
    from search_content_string[OF this] show ?thesis
      by blast
  qed
  then obtain cs where cs: "search_content r = Inr (JStr cs)"
    by blast
  from js_or_string[OF js_or_plain[OF t k]] obtain ts
    where ts: "js_or (js_or (get r ''title'') (get r ''key'')) (JStr ''(untitled)'') = JStr ts"
    by blast
  from optional_id_renders[OF d] obtain ident
    where ident: "(if truthy (get r ''id'')
                   then bind_err (to_string (get r ''id'')) (\<lambda>s. Inr ('' ('' @ s @ '')''))
                   else Inr []) = Inr ident"
    by blast
  have h: "search_heading i r = Inr (show_nat (i + 1) @ ''. **'' @ ts @ ''**'' @ ident)"
    unfolding search_heading_def Let_def ts ident by simp
  from cs h assms(1) show ?thesis
    by (simp add: search_item_def)
qed

lemma render_all:
  assumes "\<forall>r \<in> set rs. \<forall>i. \<exists>line. f i r = Inr line"
  shows "\<exists>lines. length lines = length rs \<and> (\<forall>i<length rs. f i (rs ! i) = Inr (lines ! i))"
proof -
  have "\<forall>i<length rs. \<exists>line. f i (rs ! i) = Inr line"
    using assms by simp
  then obtain g where g: "\<forall>i<length rs. f i (rs ! i) = Inr (g i)"
    by metis
  then have "length (map g [0..<length rs]) = length rs
             \<and> (\<forall>i<length rs. f i (rs ! i) = Inr (map g [0..<length rs] ! i))"
    by simp
  then show ?thesis
    by blast
qed

text \<open>
  C6, as the source has it.  On a successful search result whose result list is empty
  the search tool returns the text \<^verbatim>\<open>No results found for "<query>"\<close> and no data; on a
  non-empty list whose items all render, it returns the heading
  \<^verbatim>\<open>Found <n> result(s) for "<query>":\<close> followed by the renderings of the items in
  their order, separated by blank lines, and the list itself as data.  An item renders
  whenever it is neither \<^verbatim>\<open>null\<close> nor \<^verbatim>\<open>undefined\<close> and its title, key, id and content
  are strings or absent.
\<close>

theorem search_results_rendering:
  assumes "own kvs ''query'' = JStr q"
    and "tr \<lparr>call_method = ''POST'', call_path = ''/api/v1/knowledge/search'',
             call_body = JObj [(''query'', JStr q), (''limit'', JNum 10)],
             call_query = JNull\<rparr> = Inr res"
    and "isOk res"
    and "getData res = JArr rs
         \<or> \<not> isArray (getData res) \<and> opt_get (getData res) ''results'' = JArr rs
         \<or> \<not> isArray (getData res) \<and> \<not> truthy (opt_get (getData res) ''results'') \<and> rs = []"
  shows "(rs = [] \<longrightarrow>
            fst (executeTool tr ''beeboo_knowledge_search'' (JObj kvs)) =
              Inr \<lparr>result_text = ''No results found for '' @ dq @ q @ dq,
                   result_data = JUndefined\<rparr>)
       \<and> (rs \<noteq> [] \<and> length lines = length rs
            \<and> (\<forall>i<length rs. search_item i (rs ! i) = Inr (lines ! i)) \<longrightarrow>
            fst (executeTool tr ''beeboo_knowledge_search'' (JObj kvs)) =
              Inr \<lparr>result_text = ''Found '' @ show_nat (length rs) @ '' result(s) for ''
                                   @ dq @ q @ dq @ '':'' @ nl @ nl @ join (nl @ nl) lines,
                   result_data = JArr rs\<rparr>)
       \<and> ((\<forall>r \<in> set rs. \<not> nullish r
              \<and> (\<forall>k \<in> set [''title'', ''key'', ''id'', ''content''].
                    get r k = JUndefined \<or> (\<exists>s. get r k = JStr s))) \<longrightarrow>
            (\<exists>ls. length ls = length rs
                 \<and> (\<forall>i<length rs. search_item i (rs ! i) = Inr (ls ! i))))"
proof -
  have results: "(if isArray (getData res) then getData res
                  else js_or (opt_get (getData res) ''results'') (JArr [])) = JArr rs"
    using assms(4) by (auto simp: js_or_def)
  have run: "fst (executeTool tr ''beeboo_knowledge_search'' (JObj kvs))
               = knowledge_search_result (JStr q) res"
    using assms(1,2) by (simp add: executeTool_knowledge_search Let_def del: own.simps)
  have c1: "rs = [] \<longrightarrow>
            fst (executeTool tr ''beeboo_knowledge_search'' (JObj kvs)) =
              Inr \<lparr>result_text = ''No results found for '' @ dq @ q @ dq,
                   result_data = JUndefined\<rparr>"
  proof
    assume "rs = []"
    with results have "(if isArray (getData res) then getData res
                        else js_or (opt_get (getData res) ''results'') (JArr [])) = JArr []"
      by simp
    from search_result_zero[OF assms(3) this, of q]
    show "fst (executeTool tr ''beeboo_knowledge_search'' (JObj kvs)) =
              Inr \<lparr>result_text = ''No results found for '' @ dq @ q @ dq,
                   result_data = JUndefined\<rparr>"
      unfolding run .
  qed
  have c2: "rs \<noteq> [] \<and> length lines = length rs
            \<and> (\<forall>i<length rs. search_item i (rs ! i) = Inr (lines ! i)) \<longrightarrow>
            fst (executeTool tr ''beeboo_knowledge_search'' (JObj kvs)) =
              Inr \<lparr>result_text = ''Found '' @ show_nat (length rs) @ '' result(s) for ''
                                   @ dq @ q @ dq @ '':'' @ nl @ nl @ join (nl @ nl) lines,
                   result_data = JArr rs\<rparr>"
  proof
    assume a: "rs \<noteq> [] \<and> length lines = length rs
            \<and> (\<forall>i<length rs. search_item i (rs ! i) = Inr (lines ! i))"
    then have m: "js_map search_item (JArr rs) = Inr lines"
      unfolding js_map_array by simp
    from a have ne: "rs \<noteq> []"
      by simp
    from search_result_some[OF assms(3) results ne m, of q]
    show "fst (executeTool tr ''beeboo_knowledge_search'' (JObj kvs)) =
              Inr \<lparr>result_text = ''Found '' @ show_nat (length rs) @ '' result(s) for ''
                                   @ dq @ q @ dq @ '':'' @ nl @ nl @ join (nl @ nl) lines,
                   result_data = JArr rs\<rparr>"
      unfolding run .
  qed
  have c3: "(\<forall>r \<in> set rs. \<not> nullish r
              \<and> (\<forall>k \<in> set [''title'', ''key'', ''id'', ''content''].
                    get r k = JUndefined \<or> (\<exists>s. get r k = JStr s))) \<longrightarrow>
            (\<exists>ls. length ls = length rs
                 \<and> (\<forall>i<length rs. search_item i (rs ! i) = Inr (ls ! i)))"
  proof
    assume plain: "\<forall>r \<in> set rs. \<not> nullish r
              \<and> (\<forall>k \<in> set [''title'', ''key'', ''id'', ''content''].
                    get r k = JUndefined \<or> (\<exists>s. get r k = JStr s))"
    have "\<forall>r \<in> set rs. \<forall>i. \<exists>line. search_item i r = Inr line"
    proof (intro ballI allI)
      fix r i
      assume "r \<in> set rs"
      with plain have "\<not> nullish r"
        and "\<forall>k \<in> set [''title'', ''key'', ''id'', ''content''].
               get r k = JUndefined \<or> (\<exists>s. get r k = JStr s)"
        by simp_all
      then show "\<exists>line. search_item i r = Inr line"
        by (rule search_item_plain)
    qed
    then show "\<exists>ls. length ls = length rs
                 \<and> (\<forall>i<length rs. search_item i (rs ! i) = Inr (ls ! i))"
      by (rule render_all)
  qed
  from c1 c2 c3 show ?thesis
    by (intro conjI)
qed

theorem search_results_rendering_witness:
  "fst (executeTool
          (answering \<lparr>res_status = 200,
                       res_data = JObj [(''data'', JArr
                         [JObj [(''title'', JStr ''T''), (''id'', JStr ''k1''),
                                (''content'', JStr ''hello'')],
                          JObj [(''key'', JStr ''second'')]])],
                       res_raw = []\<rparr>)
          ''beeboo_knowledge_search'' (JObj [(''query'', JStr ''deploy'')]))
     = Inr \<lparr>result_text = ''Found '' @ show_nat 2 @ '' result(s) for '' @ dq @ ''deploy'' @ dq
                             @ '':'' @ nl @ nl
                             @ join (nl @ nl)
                                 [''1. **T** (k1)'' @ nl @ ''   hello'',
                                  ''2. **second**'' @ nl @ ''   ''],
            result_data = JArr
                         [JObj [(''title'', JStr ''T''), (''id'', JStr ''k1''),
                                (''content'', JStr ''hello'')],
                          JObj [(''key'', JStr ''second'')]]\<rparr>
   \<and> fst (executeTool
          (answering \<lparr>res_status = 200, res_data = JObj [(''results'', JNull)], res_raw = []\<rparr>)
          ''beeboo_knowledge_search'' (JObj [(''query'', JStr ''deploy'')]))
     = Inr \<lparr>result_text = ''No results found for '' @ dq @ ''deploy'' @ dq,
            result_data = JUndefined\<rparr>"
proof -
  let ?rs = "[JObj [(''title'', JStr ''T''), (''id'', JStr ''k1''), (''content'', JStr ''hello'')],
              JObj [(''key'', JStr ''second'')]]"
  let ?lines = "[''1. **T** (k1)'' @ nl @ ''   hello'', ''2. **second**'' @ nl @ ''   '']"
  let ?res = "\<lparr>res_status = 200, res_data = JObj [(''data'', JArr ?rs)], res_raw = []\<rparr>"
  let ?empty = "\<lparr>res_status = 200, res_data = JObj [(''results'', JNull)], res_raw = []\<rparr>"
  have q: "own [(''query'', JStr ''deploy'')] ''query'' = JStr ''deploy''"
    by simp
  have ok: "isOk ?res" "isOk ?empty"
    by (simp_all add: isOk_def)
  have d: "getData ?res = JArr ?rs
           \<or> \<not> isArray (getData ?res) \<and> opt_get (getData ?res) ''results'' = JArr ?rs
           \<or> \<not> isArray (getData ?res) \<and> \<not> truthy (opt_get (getData ?res) ''results'')
              \<and> ?rs = []"
    by code_simp
  have d0: "getData ?empty = JArr []
           \<or> \<not> isArray (getData ?empty) \<and> opt_get (getData ?empty) ''results'' = JArr []
           \<or> \<not> isArray (getData ?empty) \<and> \<not> truthy (opt_get (getData ?empty) ''results'')
              \<and> [] = ([] :: jsval list)"
    by code_simp
  have items: "js_map search_item (JArr ?rs) = Inr ?lines"
    by code_simp
  then have pointwise: "?rs \<noteq> [] \<and> length ?lines = length ?rs
      \<and> (\<forall>i<length ?rs. search_item i (?rs ! i) = Inr (?lines ! i))"
    unfolding js_map_array by simp
  have len: "length ?rs = 2"
    by simp
  have t: "answering r c = Inr r" for r c
    by (simp add: answering_def)
  from search_results_rendering[of "[(''query'', JStr ''deploy'')]" "''deploy''"
         "answering ?res" ?res ?rs ?lines, OF q t ok(1) d]
  have "?rs \<noteq> [] \<and> length ?lines = length ?rs
          \<and> (\<forall>i<length ?rs. search_item i (?rs ! i) = Inr (?lines ! i)) \<longrightarrow>
        fst (executeTool (answering ?res) ''beeboo_knowledge_search''
               (JObj [(''query'', JStr ''deploy'')])) =
          Inr \<lparr>result_text = ''Found '' @ show_nat (length ?rs) @ '' result(s) for ''
                               @ dq @ ''deploy'' @ dq @ '':'' @ nl @ nl @ join (nl @ nl) ?lines,
               result_data = JArr ?rs\<rparr>"
    by (elim conjE)
  from this pointwise
  have c1: "fst (executeTool (answering ?res) ''beeboo_knowledge_search''
               (JObj [(''query'', JStr ''deploy'')])) =
          Inr \<lparr>result_text = ''Found '' @ show_nat (length ?rs) @ '' result(s) for ''
                               @ dq @ ''deploy'' @ dq @ '':'' @ nl @ nl @ join (nl @ nl) ?lines,
               result_data = JArr ?rs\<rparr>"
    by (rule mp)
  from search_results_rendering[of "[(''query'', JStr ''deploy'')]" "''deploy''"
         "answering ?empty" ?empty "[]" "[]", OF q t ok(2) d0]
  have "([] :: jsval list) = [] \<longrightarrow>
        fst (executeTool (answering ?empty) ''beeboo_knowledge_search''
               (JObj [(''query'', JStr ''deploy'')])) =
          Inr \<lparr>result_text = ''No results found for '' @ dq @ ''deploy'' @ dq,
               result_data = JUndefined\<rparr>"
    by (rule conjunct1)
  then have c2: "fst (executeTool (answering ?empty) ''beeboo_knowledge_search''
               (JObj [(''query'', JStr ''deploy'')])) =
          Inr \<lparr>result_text = ''No results found for '' @ dq @ ''deploy'' @ dq,
               result_data = JUndefined\<rparr>"
    by simp
  from c1[unfolded len] c2 show ?thesis
    by (rule conjI)
qed

text \<open>
  C6 as stated fails: with zero results the handler returns no data at all rather than
  empty data, and a result list holding \<^verbatim>\<open>null\<close> makes the handler fail.
\<close>

theorem search_zero_and_null_counterexample:
  "fst (executeTool (answering \<lparr>res_status = 200, res_data = JArr [], res_raw = ''[]''\<rparr>)
          ''beeboo_knowledge_search'' (JObj [(''query'', JStr ''deploy'')]))
     = Inr \<lparr>result_text = ''No results found for '' @ dq @ ''deploy'' @ dq,
            result_data = JUndefined\<rparr>
   \<and> fst (executeTool (answering \<lparr>res_status = 200, res_data = JArr [JNull],
                                   res_raw = ''[null]''\<rparr>)
          ''beeboo_knowledge_search'' (JObj [(''query'', JStr ''deploy'')]))
     = Inl TypeError"
  by code_simp

end
